theory Spec2Isabelle
  imports Complex_Main "HOL-Library.Char_ord" "HOL-Library.List_Lexorder"
    "HOL-Library.Product_Lexorder"
begin

section \<open>Errors, tables and the outside world\<close>

text \<open>
  The notebook is a linear script over pandas, scikit-learn and difflib. Every exception
  the script can meet is a value of \<open>error\<close>; a function that may raise returns
  \<open>error + 'a\<close>, with \<open>Inl\<close> for the exception. Ratings and distances are Python floats
  in the source; they are idealised as reals here (no rounding, no NaN).
\<close>

datatype error =
  FileNotFoundError | KeyError | ValueError | IndexError | TypeError | EOFError
  | StatisticsError

text \<open>The columns of \<open>movies.csv\<close> and \<open>ratings.csv\<close> that the script reads.\<close>

record movie_row =
  m_movieId :: int
  m_title :: string

record rating_row =
  r_userId :: int
  r_movieId :: int
  r_rating :: real

text \<open>
  A two-dimensional pandas frame with a row index and column labels, and the frame that
  \<open>get_movie_recommendation\<close> returns: an index and rows of \<open>Title\<close>, \<open>Distance\<close>.
\<close>

record 'a frame =
  frame_index :: "int list"
  frame_columns :: "int list"
  frame_values :: "'a list list"

record rec_frame =
  df_index :: "int list"
  df_rows :: "(string \<times> real) list"

text \<open>
  \<open>final_dataset\<close> after \<open>reset_index\<close>: the column \<open>movieId\<close>, then one rating column per
  kept user; rows are numbered from 0.
\<close>

record dataset =
  fd_movieId :: "int list"
  fd_userId :: "int list"
  fd_values :: "real list list"

text \<open>What the script writes to the terminal, in order.\<close>

datatype printed =
  Line string
  | Prompt string
  | VarianceLine real
  | ScoreLine real real
  | Frame rec_frame
  | Figure "real list"

text \<open>The library calls that the claims speak about, logged in a ghost field.\<close>

datatype lib_call = GetCloseMatches | NNFit | KNeighbors | SVCFit | KNCFit int

record world =
  movies_csv :: "movie_row list option"
  ratings_csv :: "rating_row list option"
  stdin :: "string list"
  stdout :: "printed list"
  rng :: "nat \<Rightarrow> nat"
  rng_pos :: nat
  calls :: "lib_call list"

definition print :: "printed \<Rightarrow> world \<Rightarrow> world" where
  "print x w = w\<lparr>stdout := stdout w @ [x]\<rparr>"

definition log_call :: "lib_call \<Rightarrow> world \<Rightarrow> world" where
  "log_call c w = w\<lparr>calls := calls w @ [c]\<rparr>"

fun find_index :: "('a \<Rightarrow> bool) \<Rightarrow> 'a list \<Rightarrow> nat option" where
  "find_index P [] = None"
| "find_index P (x # xs) = (if P x then Some 0 else map_option Suc (find_index P xs))"

section \<open>Loading and preprocessing\<close>

definition read_movies_csv :: "world \<Rightarrow> error + movie_row list" where
  "read_movies_csv w = (case movies_csv w of None \<Rightarrow> Inl FileNotFoundError | Some t \<Rightarrow> Inr t)"

definition read_ratings_csv :: "world \<Rightarrow> error + rating_row list" where
  "read_ratings_csv w = (case ratings_csv w of None \<Rightarrow> Inl FileNotFoundError | Some t \<Rightarrow> Inr t)"

definition mean :: "real list \<Rightarrow> real" where
  "mean xs = sum_list xs / real (length xs)"

definition cell_ratings :: "rating_row list \<Rightarrow> int \<Rightarrow> int \<Rightarrow> real list" where
  "cell_ratings ratings m u =
     map r_rating (filter (\<lambda>r. r_movieId r = m \<and> r_userId r = u) ratings)"

text \<open>
  \<open>ratings.pivot_table(index='movieId', columns='userId', values='rating')\<close>: the keys of
  both axes sorted, each cell the mean (the default \<open>aggfunc\<close>) of the ratings of its
  pair, and no value (NaN) where the pair has none.
\<close>

definition pivot_table :: "rating_row list \<Rightarrow> real option frame" where
  "pivot_table ratings =
     (let ms = sort (remdups (map r_movieId ratings));
          us = sort (remdups (map r_userId ratings))
      in \<lparr>frame_index = ms, frame_columns = us,
          frame_values =
            map (\<lambda>m. map (\<lambda>u. case cell_ratings ratings m u of
                                 [] \<Rightarrow> None
                               | x # xs \<Rightarrow> Some (mean (x # xs))) us) ms\<rparr>)"

definition fillna :: "real \<Rightarrow> real option frame \<Rightarrow> real frame" where
  "fillna v f =
     \<lparr>frame_index = frame_index f, frame_columns = frame_columns f,
      frame_values = map (map (\<lambda>c. case c of None \<Rightarrow> v | Some x \<Rightarrow> x)) (frame_values f)\<rparr>"

text \<open>\<open>ratings.groupby('userId')['rating'].count()\<close>: a series from user to row count.\<close>

definition groupby_count :: "rating_row list \<Rightarrow> (int \<times> nat) list" where
  "groupby_count ratings =
     map (\<lambda>u. (u, length (filter (\<lambda>r. r_userId r = u) ratings)))
       (sort (remdups (map r_userId ratings)))"

text \<open>\<open>frame.loc[:, labels]\<close>: the named columns in the given order; an unknown label raises.\<close>

definition loc_columns :: "real frame \<Rightarrow> int list \<Rightarrow> error + real frame" where
  "loc_columns f labels =
     (if \<not> list_all (\<lambda>l. l \<in> set (frame_columns f)) labels then Inl KeyError
      else Inr \<lparr>frame_index = frame_index f, frame_columns = labels,
                frame_values =
                  map (\<lambda>row. map (\<lambda>l. row ! the (find_index (\<lambda>c. c = l) (frame_columns f)))
                                 labels)
                    (frame_values f)\<rparr>)"

definition reset_index :: "real frame \<Rightarrow> dataset" where
  "reset_index f =
     \<lparr>fd_movieId = frame_index f, fd_userId = frame_columns f, fd_values = frame_values f\<rparr>"

text \<open>The body of the \<open>try\<close> block of \<open>load_and_preprocess_data\<close>.\<close>

definition load_and_preprocess_data_try ::
  "world \<Rightarrow> error + (movie_row list \<times> rating_row list \<times> dataset)" where
  "load_and_preprocess_data_try w =
     (case read_movies_csv w of
        Inl e \<Rightarrow> Inl e
      | Inr movies \<Rightarrow>
          (case read_ratings_csv w of
             Inl e \<Rightarrow> Inl e
           | Inr ratings \<Rightarrow>
               (let final_dataset = fillna 0 (pivot_table ratings);
                    no_movies_voted = groupby_count ratings
                in case loc_columns final_dataset
                          (map fst (filter (\<lambda>(u, c). c > 50) no_movies_voted)) of
                     Inl e \<Rightarrow> Inl e
                   | Inr kept \<Rightarrow> Inr (movies, ratings, reset_index kept))))"

definition file_error_message :: string where
  "file_error_message =
     ''Error: movies.csv or ratings.csv not found. Please ensure files are in the correct directory.''"

text \<open>
  \<open>load_and_preprocess_data\<close>: the handler catches \<open>FileNotFoundError\<close> only; the result
  \<open>None\<close> stands for the triple \<open>(None, None, None)\<close>.
\<close>

definition load_and_preprocess_data ::
  "world \<Rightarrow> (error + (movie_row list \<times> rating_row list \<times> dataset) option) \<times> world" where
  "load_and_preprocess_data w =
     (case load_and_preprocess_data_try w of
        Inl e \<Rightarrow>
          (if e = FileNotFoundError then (Inr None, print (Line file_error_message) w)
           else (Inl e, w))
      | Inr t \<Rightarrow> (Inr (Some t), w))"

section \<open>The nearest-neighbour model\<close>

text \<open>
  \<open>metric='cosine'\<close> as scikit-learn computes it between a query row and a fitted row:
  both rows are scaled to unit length, a row of norm 0 is left as it is, and one minus the
  dot product is clipped to the interval from 0 to 2.
\<close>

definition dot :: "real list \<Rightarrow> real list \<Rightarrow> real" where
  "dot x y = sum_list (map2 (*) x y)"

definition normalize :: "real list \<Rightarrow> real list" where
  "normalize x = (let n = sqrt (dot x x) in map (\<lambda>v. v / (if n = 0 then 1 else n)) x)"

definition cosine_distances :: "real list \<Rightarrow> real list \<Rightarrow> real" where
  "cosine_distances x y = max 0 (min 2 (1 - dot (normalize x) (normalize y)))"

text \<open>
  A fitted \<open>NearestNeighbors\<close> object. \<open>csr_matrix\<close> only changes how the rows are stored,
  so the sparse matrix is the list of its rows.
\<close>

record nearest_neighbors =
  nn_n_neighbors :: int
  nn_metric :: "real list \<Rightarrow> real list \<Rightarrow> real"
  nn_fit_X :: "real list list"

definition csr_matrix :: "real list list \<Rightarrow> real list list" where
  "csr_matrix rows = rows"

text \<open>\<open>knn.fit(X)\<close> refuses a matrix with no row or no column.\<close>

definition fit ::
  "nearest_neighbors \<Rightarrow> real list list \<Rightarrow> world \<Rightarrow> (error + nearest_neighbors) \<times> world" where
  "fit knn X w =
     (let w1 = log_call NNFit w
      in case X of
           [] \<Rightarrow> (Inl ValueError, w1)
         | r # rs \<Rightarrow> (if r = [] then (Inl ValueError, w1)
                     else (Inr (knn\<lparr>nn_fit_X := X\<rparr>), w1)))"

definition create_recommendation_model ::
  "dataset \<Rightarrow> world \<Rightarrow> (error + (nearest_neighbors \<times> real list list)) \<times> world" where
  "create_recommendation_model final_dataset w =
     (let csr_data = csr_matrix (fd_values final_dataset);
          knn = \<lparr>nn_n_neighbors = 20, nn_metric = cosine_distances, nn_fit_X = []\<rparr>
      in case fit knn csr_data w of
           (Inl e, w1) \<Rightarrow> (Inl e, w1)
         | (Inr fitted, w1) \<Rightarrow> (Inr (fitted, csr_data), w1))"

text \<open>
  \<open>knn.kneighbors(row, n_neighbors=k)\<close> with \<open>algorithm='brute'\<close>: the distance from the
  query to every fitted row, and the \<open>k\<close> rows of smallest distance in ascending order of
  distance. scikit-learn leaves the order of rows of equal distance to its sorting
  routine; the model takes them in the order of their position. The call returns the
  distances and the positions of these rows.
\<close>

definition kneighbors ::
  "nearest_neighbors \<Rightarrow> real list \<Rightarrow> int \<Rightarrow> world \<Rightarrow> (error + (real list \<times> nat list)) \<times> world" where
  "kneighbors knn query k w =
     (let w1 = log_call KNeighbors w; X = nn_fit_X knn
      in if k \<le> 0 then (Inl ValueError, w1)
         else if k > int (length X) then (Inl ValueError, w1)
         else if length query \<noteq> length (hd X) then (Inl ValueError, w1)
         else
           (let ds = map (nn_metric knn query) X;
                order = take (nat k) (sort_key (\<lambda>i. ds ! i) [0..<length X])
            in (Inr (map (\<lambda>i. ds ! i) order, order), w1)))"

section \<open>Fuzzy matching of the title\<close>

text \<open>
  \<open>difflib.get_close_matches(word, possibilities, n, cutoff)\<close>. The similarity score
  \<open>SequenceMatcher(a=x, b=word).ratio()\<close> is the parameter \<open>ratio\<close>; the possibilities
  scoring at least \<open>cutoff\<close> are ranked by the pair of score and string, largest
  first, and the first \<open>n\<close> are returned.
\<close>

text \<open>The default \<open>cutoff=0.6\<close> of \<open>get_close_matches\<close>.\<close>

definition default_cutoff :: real where
  "default_cutoff = 6 / 10"

definition get_close_matches ::
  "(string \<Rightarrow> string \<Rightarrow> real) \<Rightarrow> string \<Rightarrow> string list \<Rightarrow> int \<Rightarrow> real \<Rightarrow> error + string list" where
  "get_close_matches ratio word possibilities n cutoff =
     (if \<not> n > 0 then Inl ValueError
      else if \<not> (0 \<le> cutoff \<and> cutoff \<le> 1) then Inl ValueError
      else
        (let result = map (\<lambda>x. (ratio x word, x))
                        (filter (\<lambda>x. ratio x word \<ge> cutoff) possibilities)
         in Inr (map snd (take (nat n) (rev (sort result))))))"

section \<open>Recommendations\<close>

definition no_match_message :: string where
  "no_match_message = ''No matching movie found. Please check your input.''"

definition not_in_dataset_message :: string where
  "not_in_dataset_message = ''Movie not found in dataset for recommendations.''"

definition no_variance_message :: string where
  "no_variance_message = ''Not enough data to calculate variance.''"

text \<open>
  \<open>indices.squeeze().tolist()\<close> zipped with \<open>distances.squeeze().tolist()\<close>: for a single
  neighbour \<open>squeeze\<close> leaves a scalar, which \<open>zip\<close> cannot iterate.
\<close>

definition squeeze_zip :: "nat list \<Rightarrow> real list \<Rightarrow> error + (nat \<times> real) list" where
  "squeeze_zip indices distances =
     (if length indices = 1 then Inl TypeError else Inr (zip indices distances))"

text \<open>\<open>sorted(pairs, key=lambda x: x[1])[:0:-1]\<close>: from the last pair down to the second.\<close>

definition rec_movie_indices :: "(nat \<times> real) list \<Rightarrow> (nat \<times> real) list" where
  "rec_movie_indices pairs = rev (tl (sort_key snd pairs))"

text \<open>
  The loop over \<open>rec_movie_indices\<close>; it returns \<open>recommend_frame\<close> and \<open>similarities\<close>.
  A position outside \<open>final_dataset\<close> or a \<open>movieId\<close> absent from \<open>movies\<close> raises
  \<open>IndexError\<close>.
\<close>

fun recommend_loop ::
  "movie_row list \<Rightarrow> dataset \<Rightarrow> (nat \<times> real) list \<Rightarrow> error + ((string \<times> real) list \<times> real list)" where
  "recommend_loop movies final_dataset [] = Inr ([], [])"
| "recommend_loop movies final_dataset (val # vals) =
     (if fst val \<ge> length (fd_movieId final_dataset) then Inl IndexError
      else
        (let rec_movie_id = fd_movieId final_dataset ! fst val
         in case find_index (\<lambda>r. m_movieId r = rec_movie_id) movies of
              None \<Rightarrow> Inl IndexError
            | Some idx \<Rightarrow>
                (case recommend_loop movies final_dataset vals of
                   Inl e \<Rightarrow> Inl e
                 | Inr (recommend_frame, similarities) \<Rightarrow>
                     Inr ((m_title (movies ! idx), snd val) # recommend_frame,
                          snd val # similarities))))"

text \<open>\<open>pd.DataFrame(rows, index=range(1, n + 1))\<close>: the index must be as long as the rows.\<close>

definition DataFrame :: "(string \<times> real) list \<Rightarrow> int \<Rightarrow> error + rec_frame" where
  "DataFrame rows n =
     (if length [1..n] \<noteq> length rows then Inl ValueError
      else Inr \<lparr>df_index = [1..n], df_rows = rows\<rparr>)"

text \<open>\<open>statistics.variance\<close>: the sample variance; fewer than two values raise.\<close>

definition variance :: "real list \<Rightarrow> error + real" where
  "variance xs =
     (if length xs < 2 then Inl StatisticsError
      else Inr (sum_list (map (\<lambda>x. (x - mean xs)\<^sup>2) xs) / real (length xs - 1)))"

definition get_movie_recommendation ::
  "(string \<Rightarrow> string \<Rightarrow> real) \<Rightarrow> string \<Rightarrow> movie_row list \<Rightarrow> dataset \<Rightarrow> nearest_neighbors
     \<Rightarrow> real list list \<Rightarrow> int \<Rightarrow> world \<Rightarrow> (error + rec_frame option) \<times> world" where
  "get_movie_recommendation ratio movie_name movies final_dataset knn csr_data
       n_movies_to_recommend w =
     (let list_of_all_titles = map m_title movies;
          w1 = log_call GetCloseMatches w
      in case get_close_matches ratio movie_name list_of_all_titles 1 default_cutoff of
           Inl e \<Rightarrow> (Inl e, w1)
         | Inr [] \<Rightarrow> (Inr None, print (Line no_match_message) w1)
         | Inr (selected_movie # _) \<Rightarrow>
             (case filter (\<lambda>r. m_title r = selected_movie) movies of
                [] \<Rightarrow> (Inl IndexError, w1)
              | r # _ \<Rightarrow>
                  (let movie_idx = m_movieId r
                   in case find_index (\<lambda>m. m = movie_idx) (fd_movieId final_dataset) of
                        None \<Rightarrow> (Inr None, print (Line not_in_dataset_message) w1)
                      | Some movie_matrix_idx \<Rightarrow>
                          (if movie_matrix_idx \<ge> length csr_data then (Inl IndexError, w1)
                           else
                             (case kneighbors knn (csr_data ! movie_matrix_idx)
                                     (n_movies_to_recommend + 1) w1 of
                                (Inl e, w2) \<Rightarrow> (Inl e, w2)
                              | (Inr (distances, indices), w2) \<Rightarrow>
                                  (case squeeze_zip indices distances of
                                     Inl e \<Rightarrow> (Inl e, w2)
                                   | Inr pairs \<Rightarrow>
                                       (case recommend_loop movies final_dataset
                                               (rec_movie_indices pairs) of
                                          Inl e \<Rightarrow> (Inl e, w2)
                                        | Inr (recommend_frame, similarities) \<Rightarrow>
                                            (case DataFrame recommend_frame
                                                    n_movies_to_recommend of
                                               Inl e \<Rightarrow> (Inl e, w2)
                                             | Inr df \<Rightarrow>
                                                 (case variance similarities of
                                                    Inl e \<Rightarrow>
                                                      (if e = StatisticsError
                                                       then (Inr (Some df),
                                                             print (Line no_variance_message) w2)
                                                       else (Inl e, w2))
                                                  | Inr res \<Rightarrow>
                                                      (Inr (Some df),
                                                       print (VarianceLine res) w2))))))))))"

section \<open>The two classifiers\<close>

text \<open>
  The classifiers and the shuffle of \<open>train_test_split(random_state=42)\<close> are library
  code; they are parameters of the model. \<open>shuffle n\<close> is the permutation of the
  positions below \<open>n\<close> that the split draws.
\<close>

record ('svm, 'knc) sklearn =
  svc_fit :: "real list list \<Rightarrow> int list \<Rightarrow> error + 'svm"
  svc_predict :: "'svm \<Rightarrow> real list list \<Rightarrow> error + int list"
  knc_fit :: "int \<Rightarrow> real list list \<Rightarrow> int list \<Rightarrow> error + 'knc"
  knc_predict :: "'knc \<Rightarrow> real list list \<Rightarrow> error + int list"
  shuffle :: "nat \<Rightarrow> nat list"

text \<open>\<open>np.random.randint(low, high, size)\<close> reads the global generator and advances it.\<close>

definition randint :: "int \<Rightarrow> int \<Rightarrow> nat \<Rightarrow> world \<Rightarrow> (error + int list) \<times> world" where
  "randint low high count w =
     (if high \<le> low then (Inl ValueError, w)
      else (Inr (map (\<lambda>i. low + int (rng w (rng_pos w + i)) mod (high - low)) [0..<count]),
            w\<lparr>rng_pos := rng_pos w + count\<rparr>))"

text \<open>
  \<open>train_test_split(X, y, test_size=0.2)\<close>: a fifth of the rows, rounded up, is the test
  part; an empty training part raises.
\<close>

definition train_test_split ::
  "(nat \<Rightarrow> nat list) \<Rightarrow> 'a list \<Rightarrow> 'b list \<Rightarrow> error + ('a list \<times> 'a list \<times> 'b list \<times> 'b list)" where
  "train_test_split perm X y =
     (let n = length X; n_test = (n + 4) div 5; n_train = n - n_test
      in if length y \<noteq> n then Inl ValueError
         else if n_train = 0 then Inl ValueError
         else
           (let ind_test = take n_test (perm n);
                ind_train = take n_train (drop n_test (perm n))
            in Inr (map (\<lambda>i. X ! i) ind_train, map (\<lambda>i. X ! i) ind_test,
                    map (\<lambda>i. y ! i) ind_train, map (\<lambda>i. y ! i) ind_test)))"

definition count_pairs :: "int \<Rightarrow> int \<Rightarrow> int list \<Rightarrow> int list \<Rightarrow> nat" where
  "count_pairs t p y_true y_pred = length (filter (\<lambda>(a, b). a = t \<and> b = p) (zip y_true y_pred))"

text \<open>\<open>precision_score\<close> and \<open>recall_score\<close> for the positive label 1, with \<open>zero_division=1\<close>.\<close>

definition precision_score :: "int list \<Rightarrow> int list \<Rightarrow> error + real" where
  "precision_score y_true y_pred =
     (if length y_true \<noteq> length y_pred then Inl ValueError
      else
        (let tp = count_pairs 1 1 y_true y_pred; fp = count_pairs 0 1 y_true y_pred
         in Inr (if tp + fp = 0 then 1 else real tp / real (tp + fp))))"

definition recall_score :: "int list \<Rightarrow> int list \<Rightarrow> error + real" where
  "recall_score y_true y_pred =
     (if length y_true \<noteq> length y_pred then Inl ValueError
      else
        (let tp = count_pairs 1 1 y_true y_pred; fn = count_pairs 1 0 y_true y_pred
         in Inr (if tp + fn = 0 then 1 else real tp / real (tp + fn))))"

text \<open>One classifier of \<open>train_models\<close>: predict, score, print three lines.\<close>

definition score_and_print ::
  "string \<Rightarrow> int list \<Rightarrow> error + int list \<Rightarrow> world \<Rightarrow> (error + unit) \<times> world" where
  "score_and_print header y_test predicted w =
     (case predicted of
        Inl e \<Rightarrow> (Inl e, w)
      | Inr y_pred \<Rightarrow>
          (case precision_score y_test y_pred of
             Inl e \<Rightarrow> (Inl e, w)
           | Inr precision \<Rightarrow>
               (case recall_score y_test y_pred of
                  Inl e \<Rightarrow> (Inl e, w)
                | Inr recall \<Rightarrow>
                    (Inr (),
                     print (Line [CHR 0x0A])
                       (print (ScoreLine precision recall) (print (Line header) w))))))"

definition train_models ::
  "('svm, 'knc) sklearn \<Rightarrow> dataset \<Rightarrow> world \<Rightarrow> (error + ('svm \<times> 'knc)) \<times> world" where
  "train_models lib final_dataset w =
     (let X = fd_values final_dataset
      in case randint 0 2 (length X) w of
           (Inl e, w1) \<Rightarrow> (Inl e, w1)
         | (Inr y, w1) \<Rightarrow>
             (case train_test_split (shuffle lib) X y of
                Inl e \<Rightarrow> (Inl e, w1)
              | Inr (X_train, X_test, y_train, y_test) \<Rightarrow>
                  (let w2 = log_call SVCFit w1
                   in case svc_fit lib X_train y_train of
                        Inl e \<Rightarrow> (Inl e, w2)
                      | Inr svm_model \<Rightarrow>
                          (case score_and_print ''SVM model -: '' y_test
                                  (svc_predict lib svm_model X_test) w2 of
                             (Inl e, w3) \<Rightarrow> (Inl e, w3)
                           | (Inr _, w3) \<Rightarrow>
                               (let w4 = log_call (KNCFit 5) w3
                                in case knc_fit lib 5 X_train y_train of
                                     Inl e \<Rightarrow> (Inl e, w4)
                                   | Inr knn_model \<Rightarrow>
                                       (case score_and_print ''K-NN model -:'' y_test
                                               (knc_predict lib knn_model X_test) w4 of
                                          (Inl e, w5) \<Rightarrow> (Inl e, w5)
                                        | (Inr _, w5) \<Rightarrow>
                                            (Inr (svm_model, knn_model), w5)))))))"

definition visualize_datasets :: "dataset \<Rightarrow> world \<Rightarrow> world" where
  "visualize_datasets final_dataset w = print (Figure (concat (fd_values final_dataset))) w"

section \<open>The script\<close>

text \<open>\<open>str.lower\<close> on the letters A to Z; other characters are kept.\<close>

definition lower_char :: "char \<Rightarrow> char" where
  "lower_char c =
     (case map_of (zip ''ABCDEFGHIJKLMNOPQRSTUVWXYZ'' ''abcdefghijklmnopqrstuvwxyz'') c of
        None \<Rightarrow> c
      | Some l \<Rightarrow> l)"

definition lower :: "string \<Rightarrow> string" where
  "lower s = map lower_char s"

definition input_prompt :: string where
  "input_prompt = ''Enter your favorite movie name (or \"quit\" to exit): ''"

text \<open>
  \<open>main\<close> as a machine over its program points and local variables. \<open>Returned\<close> is the
  normal end, \<open>Raised e\<close> an exception that leaves \<open>main\<close>. A local variable is \<open>None\<close>
  until its assignment.
\<close>

datatype pc = AtLoad | AtCreateModel | AtTrainModels | AtVisualize | AtInput | Returned
  | Raised error

record main_state =
  pc :: pc
  v_data :: "(movie_row list \<times> rating_row list \<times> dataset) option"
  v_model :: "(nearest_neighbors \<times> real list list) option"
  io :: world

definition main_init :: "world \<Rightarrow> main_state" where
  "main_init w = \<lparr>pc = AtLoad, v_data = None, v_model = None, io = w\<rparr>"

text \<open>One pass of the \<open>while True\<close> loop with the variables of \<open>main\<close> bound.\<close>

definition input_step ::
  "(string \<Rightarrow> string \<Rightarrow> real) \<Rightarrow> movie_row list \<Rightarrow> dataset \<Rightarrow> nearest_neighbors \<Rightarrow> real list list
     \<Rightarrow> world \<Rightarrow> pc \<times> world" where
  "input_step ratio movies final_dataset knn csr_data w =
     (let w1 = print (Prompt input_prompt) w
      in case stdin w1 of
           [] \<Rightarrow> (Raised EOFError, w1)
         | movie_name # rest \<Rightarrow>
             (let w2 = w1\<lparr>stdin := rest\<rparr>
              in if lower movie_name = ''quit'' then (Returned, w2)
                 else
                   (case get_movie_recommendation ratio movie_name movies final_dataset knn
                           csr_data 10 w2 of
                      (Inl e, w3) \<Rightarrow> (Raised e, w3)
                    | (Inr recommendations, w3) \<Rightarrow>
                        (let w4 = (case recommendations of
                                     None \<Rightarrow> w3
                                   | Some df \<Rightarrow>
                                       print (Frame df)
                                         (print (Line (CHR 0x0A # ''Recommended Movies:'')) w3))
                         in (AtInput, print (Line [CHR 0x0A]) w4)))))"

definition main_step ::
  "('svm, 'knc) sklearn \<Rightarrow> (string \<Rightarrow> string \<Rightarrow> real) \<Rightarrow> main_state \<Rightarrow> main_state" where
  "main_step lib ratio s =
     (case pc s of
        AtLoad \<Rightarrow>
          (case load_and_preprocess_data (io s) of
             (Inl e, w) \<Rightarrow> s\<lparr>pc := Raised e, io := w\<rparr>
           | (Inr None, w) \<Rightarrow> s\<lparr>pc := Returned, io := w\<rparr>
           | (Inr (Some t), w) \<Rightarrow> s\<lparr>pc := AtCreateModel, v_data := Some t, io := w\<rparr>)
      | AtCreateModel \<Rightarrow>
          (case v_data s of
             None \<Rightarrow> s\<lparr>pc := Raised TypeError\<rparr>
           | Some (movies, ratings, final_dataset) \<Rightarrow>
               (case create_recommendation_model final_dataset (io s) of
                  (Inl e, w) \<Rightarrow> s\<lparr>pc := Raised e, io := w\<rparr>
                | (Inr m, w) \<Rightarrow> s\<lparr>pc := AtTrainModels, v_model := Some m, io := w\<rparr>))
      | AtTrainModels \<Rightarrow>
          (case v_data s of
             None \<Rightarrow> s\<lparr>pc := Raised TypeError\<rparr>
           | Some (movies, ratings, final_dataset) \<Rightarrow>
               (case train_models lib final_dataset (io s) of
                  (Inl e, w) \<Rightarrow> s\<lparr>pc := Raised e, io := w\<rparr>
                | (Inr _, w) \<Rightarrow> s\<lparr>pc := AtVisualize, io := w\<rparr>))
      | AtVisualize \<Rightarrow>
          (case v_data s of
             None \<Rightarrow> s\<lparr>pc := Raised TypeError\<rparr>
           | Some (movies, ratings, final_dataset) \<Rightarrow>
               s\<lparr>pc := AtInput, io := visualize_datasets final_dataset (io s)\<rparr>)
      | AtInput \<Rightarrow>
          (case (v_data s, v_model s) of
             (Some (movies, ratings, final_dataset), Some (knn, csr_data)) \<Rightarrow>
               (case input_step ratio movies final_dataset knn csr_data (io s) of
                  (p, w) \<Rightarrow> s\<lparr>pc := p, io := w\<rparr>)
           | _ \<Rightarrow> s\<lparr>pc := Raised TypeError\<rparr>)
      | Returned \<Rightarrow> s
      | Raised e \<Rightarrow> s)"

definition halted :: "pc \<Rightarrow> bool" where
  "halted p = (case p of Returned \<Rightarrow> True | Raised e \<Rightarrow> True | _ \<Rightarrow> False)"

text \<open>The number of program points of \<open>main\<close> that are still ahead.\<close>

fun pc_rank :: "pc \<Rightarrow> nat" where
  "pc_rank AtLoad = 5"
| "pc_rank AtCreateModel = 4"
| "pc_rank AtTrainModels = 3"
| "pc_rank AtVisualize = 2"
| "pc_rank AtInput = 1"
| "pc_rank Returned = 0"
| "pc_rank (Raised e) = 0"

text \<open>
  \<open>main\<close> runs the machine until it halts. Every pass of the loop consumes one line of
  the input and the five program points before the loop are passed once, so
  \<open>length (stdin w) + 5\<close> steps always reach a halted state (lemma \<open>main_halts\<close>).
\<close>

definition main ::
  "('svm, 'knc) sklearn \<Rightarrow> (string \<Rightarrow> string \<Rightarrow> real) \<Rightarrow> world \<Rightarrow> (error + unit) \<times> world" where
  "main lib ratio w =
     (let s = (main_step lib ratio ^^ (length (stdin w) + 5)) (main_init w)
      in (case pc s of Raised e \<Rightarrow> Inl e | _ \<Rightarrow> Inr (), io s))"

text \<open>The frames that \<open>main\<close> has printed so far.\<close>

fun printed_frames :: "printed list \<Rightarrow> rec_frame list" where
  "printed_frames [] = []"
| "printed_frames (Frame df # xs) = df # printed_frames xs"
| "printed_frames (x # xs) = printed_frames xs"

text \<open>The users that the filter keeps, in the order of the columns.\<close>

definition kept_users :: "rating_row list \<Rightarrow> int list" where
  "kept_users ratings =
     filter (\<lambda>u. 50 < length (filter (\<lambda>r. r_userId r = u) ratings))
       (sort (remdups (map r_userId ratings)))"


section \<open>Concrete data for the examples\<close>

text \<open>
  A score for the examples. It agrees with \<open>SequenceMatcher.ratio\<close> wherever the two
  strings are equal (score 1) or share no character (score 0), which is the case for every
  pair of strings compared in the examples below.
\<close>

definition exact_ratio :: "string \<Rightarrow> string \<Rightarrow> real" where
  "exact_ratio x word = (if x = word then 1 else 0)"

text \<open>Stand-ins for the two classifiers and the shuffle, for the examples only.\<close>

definition lib0 :: "(unit, unit) sklearn" where
  "lib0 =
     \<lparr>svc_fit = (\<lambda>X y. Inr ()), svc_predict = (\<lambda>m X. Inr (map (\<lambda>r. 0) X)),
      knc_fit = (\<lambda>k X y. Inr ()), knc_predict = (\<lambda>m X. Inr (map (\<lambda>r. 1) X)),
      shuffle = (\<lambda>n. [0..<n])\<rparr>"

definition movies3 :: "movie_row list" where
  "movies3 =
     [\<lparr>m_movieId = 1, m_title = ''Up''\<rparr>, \<lparr>m_movieId = 2, m_title = ''Heat''\<rparr>,
      \<lparr>m_movieId = 3, m_title = ''Big''\<rparr>]"

text \<open>Three movies of which the first two have the same rating row.\<close>

definition fd_tie :: dataset where
  "fd_tie = \<lparr>fd_movieId = [1, 2, 3], fd_userId = [7, 9], fd_values = [[1, 0], [1, 0], [0, 1]]\<rparr>"

definition knn_tie :: nearest_neighbors where
  "knn_tie =
     \<lparr>nn_n_neighbors = 20, nn_metric = cosine_distances, nn_fit_X = [[1, 0], [1, 0], [0, 1]]\<rparr>"

text \<open>Three movies with pairwise different rating rows.\<close>

definition fd_apart :: dataset where
  "fd_apart =
     \<lparr>fd_movieId = [1, 2, 3], fd_userId = [7, 8, 9],
      fd_values = [[3, 4, 0], [4, 3, 0], [0, 0, 5]]\<rparr>"

definition knn_apart :: nearest_neighbors where
  "knn_apart =
     \<lparr>nn_n_neighbors = 20, nn_metric = cosine_distances,
      nn_fit_X = [[3, 4, 0], [4, 3, 0], [0, 0, 5]]\<rparr>"

text \<open>A dataset none of whose movies is listed in \<open>movies3\<close>.\<close>

definition fd_other :: dataset where
  "fd_other = \<lparr>fd_movieId = [4, 5, 6], fd_userId = [7, 9], fd_values = [[1, 0], [1, 0], [0, 1]]\<rparr>"

text \<open>The dataset of an empty \<open>ratings.csv\<close>, and a dataset of a single movie.\<close>

definition fd_norows :: dataset where
  "fd_norows = \<lparr>fd_movieId = [], fd_userId = [], fd_values = []\<rparr>"

definition fd_one :: dataset where
  "fd_one = \<lparr>fd_movieId = [1], fd_userId = [7], fd_values = [[4]]\<rparr>"

text \<open>User 7 has rated 51 movies, user 9 a single one.\<close>

definition ratings_a :: "rating_row list" where
  "ratings_a =
     \<lparr>r_userId = 9, r_movieId = 1, r_rating = 5\<rparr> #
     map (\<lambda>m. \<lparr>r_userId = 7, r_movieId = m, r_rating = 4\<rparr>) [1..51]"

text \<open>The dataset that preprocessing makes of \<open>ratings_a\<close>.\<close>

definition fd_a :: dataset where
  "fd_a = \<lparr>fd_movieId = [1..51], fd_userId = [7], fd_values = map (\<lambda>m. [4]) [1..51::int]\<rparr>"

text \<open>User 7 has 51 rows, two of them for movie 1.\<close>

definition ratings_dup :: "rating_row list" where
  "ratings_dup =
     \<lparr>r_userId = 7, r_movieId = 1, r_rating = 3\<rparr> #
     \<lparr>r_userId = 7, r_movieId = 1, r_rating = 4\<rparr> #
     map (\<lambda>k. \<lparr>r_userId = 7, r_movieId = 2, r_rating = 5\<rparr>) [1..49::int]"

definition w_empty :: world where
  "w_empty =
     \<lparr>movies_csv = None, ratings_csv = None, stdin = [''Heat'', ''quit''], stdout = [],
      rng = (\<lambda>i. i), rng_pos = 0, calls = []\<rparr>"

definition w_a :: world where
  "w_a = w_empty\<lparr>movies_csv := Some movies3, ratings_csv := Some ratings_a\<rparr>"

definition w_dup :: world where
  "w_dup = w_empty\<lparr>movies_csv := Some movies3, ratings_csv := Some ratings_dup\<rparr>"

section \<open>Basic facts\<close>

lemma find_index_None: "find_index P xs = None \<longleftrightarrow> (\<forall>x \<in> set xs. \<not> P x)"
  by (induction xs) auto

lemma find_index_Some:
  "find_index P xs = Some i \<Longrightarrow> i < length xs \<and> P (xs ! i) \<and> (\<forall>j < i. \<not> P (xs ! j))"
proof (induction xs arbitrary: i)
  case Nil
  then show ?case by simp
next
  case (Cons x xs)
  show ?case
  proof (cases "P x")
    case True
    with Cons.prems show ?thesis by simp
  next
    case False
    with Cons.prems obtain k where k: "find_index P xs = Some k" "i = Suc k"
      by auto
    from Cons.IH[OF k(1)] False k(2) show ?thesis
      by (auto simp: nth_Cons split: nat.splits)
  qed
qed

lemma find_index_member:
  assumes "x \<in> set xs"
  shows "\<exists>p. find_index (\<lambda>c. c = x) xs = Some p \<and> p < length xs \<and> xs ! p = x"
proof (cases "find_index (\<lambda>c. c = x) xs")
  case None
  with assms show ?thesis by (auto simp: find_index_None)
next
  case (Some p)
  with find_index_Some[OF Some] show ?thesis by simp
qed

lemma kept_users_eq:
  "map fst (filter (\<lambda>(u, c). c > 50) (groupby_count ratings)) = kept_users ratings"
  by (simp add: groupby_count_def kept_users_def filter_map comp_def)

lemma load_try_normal_form:
  assumes "movies_csv w = Some movies" and "ratings_csv w = Some ratings"
  shows "load_and_preprocess_data_try w =
           Inr (movies, ratings,
                \<lparr>fd_movieId = sort (remdups (map r_movieId ratings)),
                 fd_userId = kept_users ratings,
                 fd_values =
                   map (\<lambda>m. map (\<lambda>u. case cell_ratings ratings m u of
                                        [] \<Rightarrow> 0
                                      | x # xs \<Rightarrow> mean (x # xs)) (kept_users ratings))
                     (sort (remdups (map r_movieId ratings)))\<rparr>)"
proof -
  let ?us = "sort (remdups (map r_userId ratings))"
  let ?kept = "kept_users ratings"
  have sub: "set ?kept \<subseteq> set ?us"
    by (auto simp: kept_users_def)
  then have all: "list_all (\<lambda>l. l \<in> set ?us) ?kept"
    by (auto simp: list_all_iff)
  have cell: "map (\<lambda>u. case (case cell_ratings ratings m u of
                                   [] \<Rightarrow> None | x # xs \<Rightarrow> Some (mean (x # xs))) of
                            None \<Rightarrow> 0 | Some x \<Rightarrow> x) ?us
              ! the (find_index (\<lambda>c. c = u) ?us)
            = (case cell_ratings ratings m u of [] \<Rightarrow> 0 | x # xs \<Rightarrow> mean (x # xs))"
    if "u \<in> set ?kept" for m u
  proof -
    from that sub have "u \<in> set ?us" by blast
    from find_index_member[OF this] obtain p where
      p: "find_index (\<lambda>c. c = u) ?us = Some p" "p < length ?us" "?us ! p = u"
      by blast
    then show ?thesis
      by (simp split: list.splits)
  qed
  show ?thesis
    using assms all
    by (simp add: load_and_preprocess_data_try_def read_movies_csv_def read_ratings_csv_def
        Let_def kept_users_eq loc_columns_def fillna_def pivot_table_def reset_index_def
        cell comp_def cong: map_cong)
qed

lemma kept_users_set:
  "set (kept_users ratings) = {u. 50 < length (filter (\<lambda>r. r_userId r = u) ratings)}"
proof -
  have "u \<in> r_userId ` set ratings"
    if "50 < length (filter (\<lambda>r. r_userId r = u) ratings)" for u
  proof -
    from that have "filter (\<lambda>r. r_userId r = u) ratings \<noteq> []" by auto
    then obtain r where "r \<in> set (filter (\<lambda>r. r_userId r = u) ratings)"
      by (cases "filter (\<lambda>r. r_userId r = u) ratings") auto
    then show ?thesis by auto
  qed
  then show ?thesis
    by (auto simp: kept_users_def)
qed

lemma kept_users_sorted_distinct: "sorted (kept_users ratings) \<and> distinct (kept_users ratings)"
  using sorted_filter[of id "sort (remdups (map r_userId ratings))"]
  by (simp add: kept_users_def)

lemma load_Some:
  assumes "load_and_preprocess_data w = (Inr (Some (movies, ratings, fd)), w')"
  shows "movies_csv w = Some movies \<and> ratings_csv w = Some ratings \<and> w' = w"
  using assms
  by (auto simp: load_and_preprocess_data_def load_and_preprocess_data_try_def
      read_movies_csv_def read_ratings_csv_def Let_def
      split: sum.splits option.splits if_splits)

lemma load_ok:
  assumes "movies_csv w = Some movies" and "ratings_csv w = Some ratings"
  shows "\<exists>fd. load_and_preprocess_data w = (Inr (Some (movies, ratings, fd)), w)
     \<and> fd_movieId fd = sort (remdups (map r_movieId ratings))
     \<and> fd_userId fd = kept_users ratings
     \<and> length (fd_values fd) = length (fd_movieId fd)
     \<and> (\<forall>i < length (fd_movieId fd).
           length (fd_values fd ! i) = length (fd_userId fd)
         \<and> (\<forall>j < length (fd_userId fd).
               fd_values fd ! i ! j =
                 (case cell_ratings ratings (fd_movieId fd ! i) (fd_userId fd ! j) of
                    [] \<Rightarrow> 0
                  | x # xs \<Rightarrow> mean (x # xs))))"
  by (simp add: load_and_preprocess_data_def load_try_normal_form[OF assms])

lemma recommend_loop_snd:
  "recommend_loop movies fd vals = Inr (rows, sims) \<Longrightarrow>
     map snd rows = map snd vals \<and> sims = map snd vals"
  by (induction vals arbitrary: rows sims)
    (auto simp: Let_def split: if_splits option.splits sum.splits)

lemma gmr_success:
  assumes "get_movie_recommendation ratio name movies fd knn csr n w = (Inr (Some df), w')"
  shows "\<exists>q distances indices w2 pairs rows sims.
           kneighbors knn q (n + 1) (log_call GetCloseMatches w) = (Inr (distances, indices), w2)
         \<and> squeeze_zip indices distances = Inr pairs
         \<and> recommend_loop movies fd (rec_movie_indices pairs) = Inr (rows, sims)
         \<and> DataFrame rows n = Inr df"
  using assms unfolding get_movie_recommendation_def Let_def
  by (auto split: sum.splits list.splits option.splits if_splits prod.splits) blast+

text \<open>The mean of a single rating is that rating.\<close>

lemma mean_single: "mean [x] = x"
  by (simp add: mean_def)

lemma sqrt_25: "sqrt 25 = 5"
  by (rule real_sqrt_unique) simp_all

text \<open>Unfolding rules that evaluate the model on the concrete data.\<close>

lemmas load_eval =
  load_and_preprocess_data_def load_and_preprocess_data_try_def read_movies_csv_def
  read_ratings_csv_def pivot_table_def fillna_def groupby_count_def loc_columns_def
  reset_index_def cell_ratings_def mean_def Let_def upto.simps

lemmas recommend_eval =
  get_movie_recommendation_def get_close_matches_def default_cutoff_def exact_ratio_def
  kneighbors_def
  cosine_distances_def normalize_def dot_def sqrt_25 squeeze_zip_def rec_movie_indices_def
  DataFrame_def variance_def mean_def Let_def upt_conv_Cons upto.simps power2_eq_square

lemma load_w_a:
  "load_and_preprocess_data w_a = (Inr (Some (movies3, ratings_a, fd_a)), w_a)"
  by (simp add: load_eval w_a_def w_empty_def ratings_a_def fd_a_def)

section \<open>The order of the recommendations\<close>

text \<open>
  Claim C3. Whenever \<open>get_movie_recommendation\<close> returns a frame, its \<open>Distance\<close> column is
  monotone from the first row to the last: it never increases, so the column read from
  the last row up is in ascending order.
\<close>

theorem recommendations_sorted_by_distance:
  assumes "get_movie_recommendation ratio name movies fd knn csr n w = (Inr (Some df), w')"
  shows "sorted (rev (map snd (df_rows df)))"
proof -
  from gmr_success[OF assms] obtain pairs rows sims where
    loop: "recommend_loop movies fd (rec_movie_indices pairs) = Inr (rows, sims)"
    and df: "DataFrame rows n = Inr df"
    by blast
  from df have rows: "df_rows df = rows"
    by (auto simp: DataFrame_def split: if_splits)
  from recommend_loop_snd[OF loop] have "map snd rows = map snd (rec_movie_indices pairs)"
    by simp
  then have "rev (map snd rows) = tl (map snd (sort_key snd pairs))"
    by (simp add: rec_movie_indices_def rev_map map_tl)
  moreover have "sorted (tl (map snd (sort_key snd pairs)))"
    by (rule sorted_tl) (rule sorted_sort_key)
  ultimately show ?thesis using rows by simp
qed

theorem recommendations_sorted_by_distance_witness:
  "get_movie_recommendation exact_ratio ''Heat'' movies3 fd_apart knn_apart (fd_values fd_apart)
       2 w_empty =
     (Inr (Some \<lparr>df_index = [1, 2], df_rows = [(''Big'', 1), (''Up'', 1 / 25)]\<rparr>),
      print (VarianceLine (288 / 625)) (log_call KNeighbors (log_call GetCloseMatches w_empty)))
   \<and> sorted (rev (map snd [(''Big'', 1 :: real), (''Up'', 1 / 25)]))"
proof -
  have run: "get_movie_recommendation exact_ratio ''Heat'' movies3 fd_apart knn_apart
       (fd_values fd_apart) 2 w_empty =
     (Inr (Some \<lparr>df_index = [1, 2], df_rows = [(''Big'', 1), (''Up'', 1 / 25)]\<rparr>),
      print (VarianceLine (288 / 625)) (log_call KNeighbors (log_call GetCloseMatches w_empty)))"
    by (simp add: recommend_eval movies3_def fd_apart_def knn_apart_def)
  from recommendations_sorted_by_distance[OF run] run show ?thesis by simp
qed

section \<open>The rating matrix\<close>

text \<open>
  Claim C4. With both files present, \<open>load_and_preprocess_data\<close> returns the pivot of
  \<open>ratings.csv\<close>: one row for every \<open>movieId\<close> of the file (none is removed), one column
  for exactly those users that have more than 50 rows in the file, the cell of a pair
  without rating being 0 and the cell of a rated pair the pivot's value, the mean of its
  ratings.
\<close>

theorem load_and_preprocess_data_pivot:
  assumes "movies_csv w = Some movies" and "ratings_csv w = Some ratings"
  shows "\<exists>fd. load_and_preprocess_data w = (Inr (Some (movies, ratings, fd)), w)
     \<and> sorted (fd_movieId fd) \<and> distinct (fd_movieId fd)
     \<and> set (fd_movieId fd) = r_movieId ` set ratings
     \<and> sorted (fd_userId fd) \<and> distinct (fd_userId fd)
     \<and> set (fd_userId fd) = {u. 50 < length (filter (\<lambda>r. r_userId r = u) ratings)}
     \<and> length (fd_values fd) = length (fd_movieId fd)
     \<and> (\<forall>i < length (fd_movieId fd).
           length (fd_values fd ! i) = length (fd_userId fd)
         \<and> (\<forall>j < length (fd_userId fd).
               fd_values fd ! i ! j =
                 (case cell_ratings ratings (fd_movieId fd ! i) (fd_userId fd ! j) of
                    [] \<Rightarrow> 0
                  | x # xs \<Rightarrow> mean (x # xs))))"
proof -
  from load_ok[OF assms] obtain fd where
    fd: "load_and_preprocess_data w = (Inr (Some (movies, ratings, fd)), w)"
      "fd_movieId fd = sort (remdups (map r_movieId ratings))"
      "fd_userId fd = kept_users ratings"
      "length (fd_values fd) = length (fd_movieId fd)"
      "\<forall>i < length (fd_movieId fd).
           length (fd_values fd ! i) = length (fd_userId fd)
         \<and> (\<forall>j < length (fd_userId fd).
               fd_values fd ! i ! j =
                 (case cell_ratings ratings (fd_movieId fd ! i) (fd_userId fd ! j) of
                    [] \<Rightarrow> 0
                  | x # xs \<Rightarrow> mean (x # xs)))"
    by blast
  have "sorted (fd_movieId fd) \<and> distinct (fd_movieId fd)
        \<and> set (fd_movieId fd) = r_movieId ` set ratings"
    by (simp add: fd(2))
  moreover have "sorted (fd_userId fd) \<and> distinct (fd_userId fd)
        \<and> set (fd_userId fd) = {u. 50 < length (filter (\<lambda>r. r_userId r = u) ratings)}"
    using kept_users_sorted_distinct[of ratings] by (simp add: fd(3) kept_users_set)
  ultimately show ?thesis using fd(1,4,5) by blast
qed

theorem load_and_preprocess_data_pivot_witness:
  "movies_csv w_a = Some movies3 \<and> ratings_csv w_a = Some ratings_a
   \<and> (\<exists>fd. load_and_preprocess_data w_a = (Inr (Some (movies3, ratings_a, fd)), w_a)
     \<and> sorted (fd_movieId fd) \<and> distinct (fd_movieId fd)
     \<and> set (fd_movieId fd) = r_movieId ` set ratings_a
     \<and> sorted (fd_userId fd) \<and> distinct (fd_userId fd)
     \<and> set (fd_userId fd) = {u. 50 < length (filter (\<lambda>r. r_userId r = u) ratings_a)}
     \<and> length (fd_values fd) = length (fd_movieId fd)
     \<and> (\<forall>i < length (fd_movieId fd).
           length (fd_values fd ! i) = length (fd_userId fd)
         \<and> (\<forall>j < length (fd_userId fd).
               fd_values fd ! i ! j =
                 (case cell_ratings ratings_a (fd_movieId fd ! i) (fd_userId fd ! j) of
                    [] \<Rightarrow> 0
                  | x # xs \<Rightarrow> mean (x # xs)))))"
proof -
  have files: "movies_csv w_a = Some movies3" "ratings_csv w_a = Some ratings_a"
    by (simp_all add: w_a_def w_empty_def)
  from load_and_preprocess_data_pivot[OF files] files show ?thesis by blast
qed

section \<open>The entries of the matrix and its invariance\<close>

text \<open>
  Claim C10 as stated fails: a pair of movie and user that occurs twice in \<open>ratings.csv\<close>
  gets the mean of its ratings, which need not be one of them. In \<open>ratings_dup\<close> user 7
  rates movie 1 with 3 and with 4, and the cell is 3.5.
\<close>

theorem final_dataset_entry_counterexample:
  "load_and_preprocess_data w_dup =
     (Inr (Some (movies3, ratings_dup,
        \<lparr>fd_movieId = [1, 2], fd_userId = [7], fd_values = [[7 / 2], [5]]\<rparr>)), w_dup)
   \<and> cell_ratings ratings_dup 1 7 = [3, 4]
   \<and> (7 / 2 :: real) \<notin> set (cell_ratings ratings_dup 1 7) \<and> (7 / 2 :: real) \<noteq> 0"
proof -
  have "load_and_preprocess_data w_dup =
     (Inr (Some (movies3, ratings_dup,
        \<lparr>fd_movieId = [1, 2], fd_userId = [7], fd_values = [[7 / 2], [5]]\<rparr>)), w_dup)"
    by (simp add: load_eval w_dup_def w_empty_def ratings_dup_def)
  moreover have "cell_ratings ratings_dup 1 7 = [3, 4]"
    by (simp add: cell_ratings_def ratings_dup_def upto.simps)
  ultimately show ?thesis by simp
qed

lemma pc_step_not_AtLoad: "pc (main_step lib ratio s) = AtLoad \<Longrightarrow> False"
  by (cases "pc s")
    (auto simp: main_step_def input_step_def Let_def
      split: prod.splits sum.splits option.splits list.splits if_splits)

lemma v_data_step:
  assumes "v_data (main_step lib ratio s) = Some t"
  shows "v_data s = Some t \<or> (pc s = AtLoad \<and> fst (load_and_preprocess_data (io s)) = Inr (Some t))"
  using assms
  by (cases "pc s")
    (auto simp: main_step_def Let_def
      split: prod.splits sum.splits option.splits list.splits if_splits)

lemma v_data_run:
  assumes "v_data ((main_step lib ratio ^^ k) (main_init w)) = Some t"
  shows "fst (load_and_preprocess_data w) = Inr (Some t)"
  using assms
proof (induction k arbitrary: t)
  case 0
  then show ?case by (simp add: main_init_def)
next
  case (Suc k)
  let ?s = "(main_step lib ratio ^^ k) (main_init w)"
  from Suc.prems have "v_data (main_step lib ratio ?s) = Some t" by simp
  from v_data_step[OF this] show ?case
  proof
    assume "v_data ?s = Some t"
    then show ?thesis by (rule Suc.IH)
  next
    assume at: "pc ?s = AtLoad \<and> fst (load_and_preprocess_data (io ?s)) = Inr (Some t)"
    have "k = 0"
    proof (cases k)
      case 0
      then show ?thesis .
    next
      case (Suc m)
      with at have "pc (main_step lib ratio ((main_step lib ratio ^^ m) (main_init w))) = AtLoad"
        by simp
      then show ?thesis using pc_step_not_AtLoad by blast
    qed
    with at show ?thesis by (simp add: main_init_def)
  qed
qed

text \<open>
  Claim C10, amended. In every state of \<open>main\<close> in which \<open>final_dataset\<close> is bound, it is
  the dataset that \<open>load_and_preprocess_data\<close> returned, so no later operation changes
  it. The matrix is rectangular, so no entry is missing, and each entry is 0 when its pair
  of movie and user has no rating in \<open>ratings.csv\<close> and the mean of the ratings of the
  pair otherwise, which is the rating itself when the pair occurs once.
\<close>

theorem final_dataset_entries_invariant:
  assumes "v_data ((main_step lib ratio ^^ k) (main_init w)) = Some (movies, ratings, fd)"
  shows "load_and_preprocess_data w = (Inr (Some (movies, ratings, fd)), w)
     \<and> length (fd_values fd) = length (fd_movieId fd)
     \<and> (\<forall>i < length (fd_movieId fd).
           length (fd_values fd ! i) = length (fd_userId fd)
         \<and> (\<forall>j < length (fd_userId fd).
               fd_values fd ! i ! j =
                 (case cell_ratings ratings (fd_movieId fd ! i) (fd_userId fd ! j) of
                    [] \<Rightarrow> 0
                  | x # xs \<Rightarrow> mean (x # xs))))"
proof -
  from v_data_run[OF assms]
  obtain w' where l: "load_and_preprocess_data w = (Inr (Some (movies, ratings, fd)), w')"
    by (cases "load_and_preprocess_data w") auto
  from load_Some[OF l] have files: "movies_csv w = Some movies" "ratings_csv w = Some ratings"
    and w': "w' = w" by simp_all
  from load_ok[OF files] l w' show ?thesis by auto
qed

theorem final_dataset_entries_invariant_witness:
  "v_data ((main_step lib0 exact_ratio ^^ 2) (main_init w_a)) = Some (movies3, ratings_a, fd_a)
   \<and> load_and_preprocess_data w_a = (Inr (Some (movies3, ratings_a, fd_a)), w_a)
   \<and> length (fd_values fd_a) = length (fd_movieId fd_a)
   \<and> length (fd_values fd_a ! 0) = length (fd_userId fd_a)
   \<and> fd_values fd_a ! 0 ! 0 =
         (case cell_ratings ratings_a (fd_movieId fd_a ! 0) (fd_userId fd_a ! 0) of
            [] \<Rightarrow> 0
          | x # xs \<Rightarrow> mean (x # xs))"
proof -
  have bound: "v_data ((main_step lib0 exact_ratio ^^ 2) (main_init w_a))
                 = Some (movies3, ratings_a, fd_a)"
    by (simp add: numeral_2_eq_2 main_step_def main_init_def load_w_a
        create_recommendation_model_def fit_def Let_def csr_matrix_def fd_a_def upto.simps)
  have pos: "0 < length (fd_movieId fd_a)" "0 < length (fd_userId fd_a)"
    by (simp_all add: fd_a_def upto.simps)
  from final_dataset_entries_invariant[OF bound] bound pos show ?thesis by blast
qed

section \<open>The fuzzy match\<close>

lemma sorted_le_last: "sorted xs \<Longrightarrow> x \<in> set xs \<Longrightarrow> x \<le> last xs"
  by (induction xs) (auto split: if_splits)

lemma get_close_matches_one:
  "get_close_matches ratio word ts 1 default_cutoff =
     Inr (map snd (take 1 (rev (sort (map (\<lambda>x. (ratio x word, x))
                                   (filter (\<lambda>x. default_cutoff \<le> ratio x word) ts))))))"
  by (simp add: get_close_matches_def default_cutoff_def)

lemma get_close_matches_empty:
  "get_close_matches ratio word ts 1 default_cutoff = Inr [] \<longleftrightarrow> (\<forall>t \<in> set ts. ratio t word < default_cutoff)"
proof -
  let ?R = "map (\<lambda>x. (ratio x word, x)) (filter (\<lambda>x. default_cutoff \<le> ratio x word) ts)"
  have "take 1 (rev (sort ?R)) = [] \<longleftrightarrow> sort ?R = []"
    by (cases "rev (sort ?R)") auto
  also have "\<dots> \<longleftrightarrow> filter (\<lambda>x. default_cutoff \<le> ratio x word) ts = []"
    using length_sort[of "\<lambda>x. x" ?R] by (simp only: length_0_conv[symmetric] length_map)
  also have "\<dots> \<longleftrightarrow> (\<forall>t \<in> set ts. ratio t word < default_cutoff)"
    by (auto simp: filter_empty_conv not_le)
  finally show ?thesis
    by (simp add: get_close_matches_one)
qed

lemma get_close_matches_best:
  assumes "get_close_matches ratio word ts 1 default_cutoff = Inr ms" and "t \<in> set ms"
  shows "ms = [t] \<and> t \<in> set ts \<and> default_cutoff \<le> ratio t word
         \<and> (\<forall>t' \<in> set ts. ratio t' word \<le> ratio t word)"
proof -
  let ?R = "map (\<lambda>x. (ratio x word, x)) (filter (\<lambda>x. default_cutoff \<le> ratio x word) ts)"
  from assms have ms: "ms = map snd (take 1 (rev (sort ?R)))"
    by (simp add: get_close_matches_one)
  with assms(2) have ne: "sort ?R \<noteq> []" by auto
  then have tk: "take 1 (rev (sort ?R)) = [last (sort ?R)]"
    by (cases "sort ?R" rule: rev_cases) auto
  with ms assms(2) have t: "ms = [t]" "t = snd (last (sort ?R))" by auto
  from ne have "last (sort ?R) \<in> set (sort ?R)" by (rule last_in_set)
  then have mem: "last (sort ?R) \<in> set ?R" by simp
  then have in_ts: "t \<in> set ts" "default_cutoff \<le> ratio t word"
    and l: "last (sort ?R) = (ratio t word, t)"
    using t(2) by auto
  have "ratio t' word \<le> ratio t word" if "t' \<in> set ts" for t'
  proof (cases "default_cutoff \<le> ratio t' word")
    case True
    with that have "(ratio t' word, t') \<in> set (sort ?R)" by auto
    then have "(ratio t' word, t') \<le> last (sort ?R)"
      by (rule sorted_le_last[OF sorted_sort])
    with l show ?thesis by (auto simp: less_eq_prod_simp)
  next
    case False
    with in_ts(2) show ?thesis by simp
  qed
  with t(1) in_ts show ?thesis by blast
qed

lemma kneighbors_world: "snd (kneighbors knn q k w) = log_call KNeighbors w"
  by (simp add: kneighbors_def Let_def)

lemma gmr_world:
  "\<exists>out cs. snd (get_movie_recommendation ratio name movies fd knn csr n w)
            = w\<lparr>stdout := stdout w @ out, calls := calls w @ GetCloseMatches # cs\<rparr>
          \<and> GetCloseMatches \<notin> set cs \<and> printed_frames out = []"
proof -
  let ?w1 = "log_call GetCloseMatches w"
  let ?w2 = "log_call KNeighbors ?w1"
  have shape: "\<exists>out cs. v = w\<lparr>stdout := stdout w @ out, calls := calls w @ GetCloseMatches # cs\<rparr>
                 \<and> GetCloseMatches \<notin> set cs \<and> printed_frames out = []"
    if "v = ?w1 \<or> v = ?w2 \<or> (\<exists>x. v = print (Line x) ?w1) \<or> (\<exists>x. v = print (Line x) ?w2)
        \<or> (\<exists>x. v = print (VarianceLine x) ?w2)" for v
    using that
  proof (elim disjE exE)
    assume "v = ?w1"
    then have "v = w\<lparr>stdout := stdout w @ [], calls := calls w @ GetCloseMatches # []\<rparr>"
      by (simp add: log_call_def)
    then show ?thesis by (metis empty_iff empty_set printed_frames.simps(1))
  next
    assume "v = ?w2"
    then have "v = w\<lparr>stdout := stdout w @ [], calls := calls w @ GetCloseMatches # [KNeighbors]\<rparr>"
      by (simp add: log_call_def)
    moreover have "GetCloseMatches \<notin> set [KNeighbors]" by simp
    ultimately show ?thesis using printed_frames.simps(1) by blast
  next
    fix x assume "v = print (Line x) ?w1"
    then have "v = w\<lparr>stdout := stdout w @ [Line x], calls := calls w @ GetCloseMatches # []\<rparr>"
      by (simp add: log_call_def print_def)
    moreover have "printed_frames [Line x] = []" by simp
    moreover have "GetCloseMatches \<notin> set []" by simp
    ultimately show ?thesis by blast
  next
    fix x assume "v = print (Line x) ?w2"
    then have "v = w\<lparr>stdout := stdout w @ [Line x],
                      calls := calls w @ GetCloseMatches # [KNeighbors]\<rparr>"
      by (simp add: log_call_def print_def)
    moreover have "printed_frames [Line x] = []" by simp
    moreover have "GetCloseMatches \<notin> set [KNeighbors]" by simp
    ultimately show ?thesis by blast
  next
    fix x assume "v = print (VarianceLine x) ?w2"
    then have "v = w\<lparr>stdout := stdout w @ [VarianceLine x],
                      calls := calls w @ GetCloseMatches # [KNeighbors]\<rparr>"
      by (simp add: log_call_def print_def)
    moreover have "printed_frames [VarianceLine x] = []" by simp
    moreover have "GetCloseMatches \<notin> set [KNeighbors]" by simp
    ultimately show ?thesis by blast
  qed
  have k: "\<And>q k a b. kneighbors knn q k ?w1 = (a, b) \<Longrightarrow> b = ?w2"
    using kneighbors_world by (metis snd_conv)
  have "snd (get_movie_recommendation ratio name movies fd knn csr n w) = ?w1
      \<or> snd (get_movie_recommendation ratio name movies fd knn csr n w) = ?w2
      \<or> (\<exists>x. snd (get_movie_recommendation ratio name movies fd knn csr n w) = print (Line x) ?w1)
      \<or> (\<exists>x. snd (get_movie_recommendation ratio name movies fd knn csr n w) = print (Line x) ?w2)
      \<or> (\<exists>x. snd (get_movie_recommendation ratio name movies fd knn csr n w)
                 = print (VarianceLine x) ?w2)"
    unfolding get_movie_recommendation_def Let_def
    by (auto split: sum.splits list.splits option.splits prod.splits dest!: k)
  then show ?thesis by (rule shape)
qed

lemma gmr_calls:
  "\<exists>cs. calls (snd (get_movie_recommendation ratio name movies fd knn csr n w))
          = calls w @ GetCloseMatches # cs \<and> GetCloseMatches \<notin> set cs"
proof -
  from gmr_world[of ratio name movies fd knn csr n w] obtain out cs where
    "snd (get_movie_recommendation ratio name movies fd knn csr n w)
            = w\<lparr>stdout := stdout w @ out, calls := calls w @ GetCloseMatches # cs\<rparr>"
    "GetCloseMatches \<notin> set cs"
    by blast
  then show ?thesis by simp
qed

lemma gmr_no_match:
  assumes "\<forall>t \<in> set (map m_title movies). ratio t name < default_cutoff"
  shows "get_movie_recommendation ratio name movies fd knn csr n w =
           (Inr None, w\<lparr>stdout := stdout w @ [Line no_match_message],
                         calls := calls w @ [GetCloseMatches]\<rparr>)"
proof -
  from assms have "get_close_matches ratio name (map m_title movies) 1 default_cutoff = Inr []"
    by (simp only: get_close_matches_empty)
  then show ?thesis
    by (simp add: get_movie_recommendation_def Let_def print_def log_call_def)
qed

text \<open>
  Claim C6. A query performs exactly one fuzzy match: \<open>get_close_matches\<close> with \<open>n=1\<close>
  returns at most one title, and that title is one of \<open>movies.csv\<close> with a score of at
  least the cutoff that no other title exceeds; every call of
  \<open>get_movie_recommendation\<close> logs exactly one fuzzy match. When no title reaches the
  cutoff, the function prints its message and returns \<open>None\<close>, and the log shows that the
  nearest-neighbour model was not queried.
\<close>

theorem single_fuzzy_match:
  "(\<exists>ms. get_close_matches ratio movie_name (map m_title movies) 1 default_cutoff = Inr ms
        \<and> length ms \<le> 1
        \<and> (\<forall>t \<in> set ms. t \<in> set (map m_title movies) \<and> default_cutoff \<le> ratio t movie_name
              \<and> (\<forall>t' \<in> set (map m_title movies). ratio t' movie_name \<le> ratio t movie_name)))
   \<and> (\<exists>cs. calls (snd (get_movie_recommendation ratio movie_name movies fd knn csr n w))
              = calls w @ GetCloseMatches # cs \<and> GetCloseMatches \<notin> set cs)
   \<and> ((\<forall>t \<in> set (map m_title movies). ratio t movie_name < default_cutoff) \<longrightarrow>
        get_movie_recommendation ratio movie_name movies fd knn csr n w =
          (Inr None, w\<lparr>stdout := stdout w @ [Line no_match_message],
                        calls := calls w @ [GetCloseMatches]\<rparr>))"
proof -
  obtain ms where ms: "get_close_matches ratio movie_name (map m_title movies) 1 default_cutoff = Inr ms"
    using get_close_matches_one by blast
  then have "length ms \<le> 1"
    unfolding get_close_matches_one by auto
  with ms get_close_matches_best[OF ms] have first: "\<exists>ms.
      get_close_matches ratio movie_name (map m_title movies) 1 default_cutoff = Inr ms
        \<and> length ms \<le> 1
        \<and> (\<forall>t \<in> set ms. t \<in> set (map m_title movies) \<and> default_cutoff \<le> ratio t movie_name
              \<and> (\<forall>t' \<in> set (map m_title movies). ratio t' movie_name \<le> ratio t movie_name))"
    by blast
  show ?thesis
    using first gmr_calls[of ratio movie_name movies fd knn csr n w]
      gmr_no_match[of movies ratio movie_name fd knn csr n w]
    by (intro conjI impI)
qed

theorem single_fuzzy_match_witness:
  "get_close_matches exact_ratio ''Zorro'' (map m_title movies3) 1 default_cutoff = Inr []
   \<and> get_close_matches exact_ratio ''Heat'' (map m_title movies3) 1 default_cutoff = Inr [''Heat'']
   \<and> get_movie_recommendation exact_ratio ''Zorro'' movies3 fd_tie knn_tie (fd_values fd_tie)
         10 w_empty =
       (Inr None, w_empty\<lparr>stdout := stdout w_empty @ [Line no_match_message],
                          calls := calls w_empty @ [GetCloseMatches]\<rparr>)"
proof -
  have none: "\<forall>t \<in> set (map m_title movies3). exact_ratio t ''Zorro'' < default_cutoff"
    by (simp add: movies3_def exact_ratio_def default_cutoff_def)
  have "get_close_matches exact_ratio ''Zorro'' (map m_title movies3) 1 default_cutoff = Inr []"
    by (simp add: get_close_matches_def movies3_def exact_ratio_def default_cutoff_def)
  moreover have "get_close_matches exact_ratio ''Heat'' (map m_title movies3) 1 default_cutoff
                   = Inr [''Heat'']"
    by (simp add: get_close_matches_def movies3_def exact_ratio_def default_cutoff_def)
  moreover from none single_fuzzy_match[where ratio = exact_ratio and movie_name = "''Zorro''"
      and movies = movies3 and fd = fd_tie and knn = knn_tie and csr = "fd_values fd_tie"
      and n = 10 and w = w_empty]
  have "get_movie_recommendation exact_ratio ''Zorro'' movies3 fd_tie knn_tie (fd_values fd_tie)
         10 w_empty =
       (Inr None, w_empty\<lparr>stdout := stdout w_empty @ [Line no_match_message],
                          calls := calls w_empty @ [GetCloseMatches]\<rparr>)"
    by blast
  ultimately show ?thesis by (intro conjI)
qed

text \<open>
  Claim C9. When the matched title belongs to a row of \<open>movies.csv\<close> whose \<open>movieId\<close> is
  not in the filtered dataset, \<open>get_movie_recommendation\<close> prints its message and returns
  \<open>None\<close>; the world changes by that line and the logged fuzzy match only, so
  \<open>kneighbors\<close> is not called, and the model and the datasets, being arguments, stay as
  they are.
\<close>

theorem movie_absent_from_dataset:
  assumes "get_close_matches ratio movie_name (map m_title movies) 1 default_cutoff
             = Inr (selected_movie # rest)"
    and "filter (\<lambda>r. m_title r = selected_movie) movies = r # rs"
    and "m_movieId r \<notin> set (fd_movieId fd)"
  shows "get_movie_recommendation ratio movie_name movies fd knn csr n w =
           (Inr None, w\<lparr>stdout := stdout w @ [Line not_in_dataset_message],
                         calls := calls w @ [GetCloseMatches]\<rparr>)"
proof -
  from assms(3) have "find_index (\<lambda>m. m = m_movieId r) (fd_movieId fd) = None"
    by (auto simp: find_index_None)
  with assms(1,2) show ?thesis
    by (simp add: get_movie_recommendation_def Let_def print_def log_call_def)
qed

theorem movie_absent_from_dataset_witness:
  "get_close_matches exact_ratio ''Heat'' (map m_title movies3) 1 default_cutoff = Inr [''Heat'']
   \<and> filter (\<lambda>r. m_title r = ''Heat'') movies3 = [\<lparr>m_movieId = 2, m_title = ''Heat''\<rparr>]
   \<and> 2 \<notin> set (fd_movieId fd_other)
   \<and> get_movie_recommendation exact_ratio ''Heat'' movies3 fd_other knn_tie (fd_values fd_other)
         10 w_empty =
       (Inr None, w_empty\<lparr>stdout := stdout w_empty @ [Line not_in_dataset_message],
                          calls := calls w_empty @ [GetCloseMatches]\<rparr>)"
proof -
  have m: "get_close_matches exact_ratio ''Heat'' (map m_title movies3) 1 default_cutoff
             = Inr (''Heat'' # [])"
    by (simp add: get_close_matches_def movies3_def exact_ratio_def default_cutoff_def)
  have f: "filter (\<lambda>r. m_title r = ''Heat'') movies3 = \<lparr>m_movieId = 2, m_title = ''Heat''\<rparr> # []"
    by (simp add: movies3_def)
  have a: "m_movieId \<lparr>m_movieId = 2, m_title = ''Heat''\<rparr> \<notin> set (fd_movieId fd_other)"
    by (simp add: fd_other_def)
  from movie_absent_from_dataset[OF m f a] m f a show ?thesis by simp
qed

section \<open>Termination of the script and its exception handlers\<close>

lemma stdin_print [simp]: "stdin (print x w) = stdin w"
  by (simp add: print_def)

lemma stdin_log_call [simp]: "stdin (log_call c w) = stdin w"
  by (simp add: log_call_def)

lemma load_stdin: "load_and_preprocess_data w = (r, w') \<Longrightarrow> stdin w' = stdin w"
  by (auto simp: load_and_preprocess_data_def split: sum.splits if_splits)

lemma create_stdin: "create_recommendation_model fd w = (r, w') \<Longrightarrow> stdin w' = stdin w"
  by (auto simp: create_recommendation_model_def fit_def Let_def
      split: prod.splits sum.splits list.splits if_splits)

lemma randint_stdin: "randint a b n w = (r, w') \<Longrightarrow> stdin w' = stdin w"
  by (auto simp: randint_def split: if_splits)

lemma score_stdin: "score_and_print h y p w = (r, w') \<Longrightarrow> stdin w' = stdin w"
  by (auto simp: score_and_print_def split: sum.splits)

lemma train_stdin: "train_models lib fd w = (r, w') \<Longrightarrow> stdin w' = stdin w"
  unfolding train_models_def Let_def
  by (auto split: prod.splits sum.splits dest!: randint_stdin score_stdin)

lemma gmr_stdin:
  "get_movie_recommendation ratio name movies fd knn csr n w = (r, w') \<Longrightarrow> stdin w' = stdin w"
  using gmr_world[of ratio name movies fd knn csr n w] by auto

lemma input_step_measure:
  assumes "input_step ratio movies fd knn csr w = (p, w')"
  shows "pc_rank p + length (stdin w') < 1 + length (stdin w)"
  using assms unfolding input_step_def Let_def
  by (auto split: list.splits if_splits prod.splits sum.splits option.splits
      dest!: gmr_stdin)

lemma halted_rank: "halted p \<longleftrightarrow> pc_rank p = 0"
  by (cases p) (simp_all add: halted_def)

lemma halted_fix: "halted (pc s) \<Longrightarrow> main_step lib ratio s = s"
  by (cases "pc s") (simp_all add: halted_def main_step_def)

lemma step_measure:
  assumes "\<not> halted (pc s)"
  shows "pc_rank (pc (main_step lib ratio s)) + length (stdin (io (main_step lib ratio s)))
           < pc_rank (pc s) + length (stdin (io s))"
proof (cases "pc s")
  case AtLoad
  then show ?thesis
    by (auto simp: main_step_def split: prod.splits sum.splits option.splits dest!: load_stdin)
next
  case AtCreateModel
  then show ?thesis
    by (auto simp: main_step_def split: prod.splits sum.splits option.splits dest!: create_stdin)
next
  case AtTrainModels
  then show ?thesis
    by (auto simp: main_step_def split: prod.splits sum.splits option.splits dest!: train_stdin)
next
  case AtVisualize
  then show ?thesis
    by (auto simp: main_step_def visualize_datasets_def split: prod.splits option.splits)
next
  case AtInput
  then show ?thesis
    by (auto simp: main_step_def split: prod.splits option.splits dest!: input_step_measure)
next
  case Returned
  with assms show ?thesis by (simp add: halted_def)
next
  case (Raised e)
  with assms show ?thesis by (simp add: halted_def)
qed

lemma run_measure:
  "halted (pc ((main_step lib ratio ^^ k) s))
   \<or> pc_rank (pc ((main_step lib ratio ^^ k) s)) + length (stdin (io ((main_step lib ratio ^^ k) s))) + k
       \<le> pc_rank (pc s) + length (stdin (io s))"
proof (induction k)
  case 0
  then show ?case by simp
next
  case (Suc k)
  let ?t = "(main_step lib ratio ^^ k) s"
  show ?case
  proof (cases "halted (pc ?t)")
    case True
    then show ?thesis by (simp add: halted_fix)
  next
    case False
    with Suc.IH step_measure[OF False, where lib = lib and ratio = ratio] show ?thesis by simp
  qed
qed

lemma main_halts:
  "halted (pc ((main_step lib ratio ^^ (length (stdin w) + 5)) (main_init w)))"
  using run_measure[where lib = lib and ratio = ratio and k = "length (stdin w) + 5"
      and s = "main_init w"]
  by (auto simp: halted_rank main_init_def)

lemma run_halted: "halted (pc s) \<Longrightarrow> (main_step lib ratio ^^ k) s = s"
  by (induction k) (simp_all add: halted_fix)

lemma load_missing:
  assumes "movies_csv w = None \<or> ratings_csv w = None"
  shows "load_and_preprocess_data w = (Inr None, print (Line file_error_message) w)"
  using assms
  by (auto simp: load_and_preprocess_data_def load_and_preprocess_data_try_def
      read_movies_csv_def read_ratings_csv_def split: option.splits)

lemma main_missing:
  assumes "movies_csv w = None \<or> ratings_csv w = None"
  shows "main lib ratio w = (Inr (), print (Line file_error_message) w)"
proof -
  let ?s = "\<lparr>pc = Returned, v_data = None, v_model = None,
             io = print (Line file_error_message) w\<rparr>"
  have one: "main_step lib ratio (main_init w) = ?s"
    by (simp add: main_step_def main_init_def load_missing[OF assms])
  have "length (stdin w) + 5 = Suc (length (stdin w) + 4)" by simp
  then have "(main_step lib ratio ^^ (length (stdin w) + 5)) (main_init w)
          = (main_step lib ratio ^^ (length (stdin w) + 4)) (main_step lib ratio (main_init w))"
    by (simp only: funpow_Suc_right o_apply)
  also have "\<dots> = ?s"
    unfolding one by (rule run_halted) (simp add: halted_def)
  finally show ?thesis
    by (simp add: main_def)
qed

lemma variance_error: "variance xs = Inl e \<Longrightarrow> e = StatisticsError"
  by (auto simp: variance_def split: if_splits)

lemma kneighbors_error: "kneighbors knn q k w = (Inl e, w') \<Longrightarrow> e = ValueError"
  by (auto simp: kneighbors_def Let_def split: if_splits)

lemma recommend_loop_error: "recommend_loop movies fd vals = Inl e \<Longrightarrow> e = IndexError"
  by (induction vals) (auto simp: Let_def split: if_splits option.splits sum.splits)

lemma gmr_error:
  assumes "fst (get_movie_recommendation ratio name movies fd knn csr n w) = Inl e"
  shows "e = ValueError \<or> e = IndexError \<or> e = TypeError"
  using assms unfolding get_movie_recommendation_def Let_def
  by (auto simp: get_close_matches_def squeeze_zip_def DataFrame_def
      split: sum.splits list.splits option.splits prod.splits if_splits
      dest!: kneighbors_error recommend_loop_error variance_error)

text \<open>
  Claim C2 as stated fails: \<open>load_and_preprocess_data\<close> is not the only place where an
  exception is caught. With a single recommendation \<open>statistics.variance\<close> raises
  \<open>StatisticsError\<close>, which \<open>get_movie_recommendation\<close> catches: it prints a line and
  still returns the frame.
\<close>

theorem statistics_error_caught_counterexample:
  "variance [1 / 25] = Inl StatisticsError
   \<and> get_movie_recommendation exact_ratio ''Heat'' movies3 fd_apart knn_apart (fd_values fd_apart)
         1 w_empty =
       (Inr (Some \<lparr>df_index = [1], df_rows = [(''Up'', 1 / 25)]\<rparr>),
        print (Line no_variance_message) (log_call KNeighbors (log_call GetCloseMatches w_empty)))"
  by (simp add: recommend_eval movies3_def fd_apart_def knn_apart_def)

text \<open>
  Claim C2, amended. The script has two handlers. A missing file makes
  \<open>load_and_preprocess_data\<close> print its message and return \<open>None\<close>, upon which \<open>main\<close>
  returns with nothing else done: no model fitted, no input read. The only error of
  \<open>statistics.variance\<close> is \<open>StatisticsError\<close>, and \<open>get_movie_recommendation\<close> never
  lets it out. No other error is caught: an exception of \<open>create_recommendation_model\<close>,
  of \<open>train_models\<close> or of \<open>get_movie_recommendation\<close> ends \<open>main\<close> with that exception.
\<close>

theorem error_handling:
  "(movies_csv w = None \<or> ratings_csv w = None \<longrightarrow>
      load_and_preprocess_data w = (Inr None, print (Line file_error_message) w)
    \<and> main lib ratio w = (Inr (), print (Line file_error_message) w))
   \<and> (variance similarities = Inl e \<longrightarrow> e = StatisticsError)
   \<and> fst (get_movie_recommendation ratio movie_name movies fd knn csr n w) \<noteq> Inl StatisticsError
   \<and> (fst (create_recommendation_model fd w) = Inl e \<longrightarrow>
        pc (main_step lib ratio
              \<lparr>pc = AtCreateModel, v_data = Some (movies, ratings, fd), v_model = m, io = w\<rparr>)
          = Raised e)
   \<and> (fst (train_models lib fd w) = Inl e \<longrightarrow>
        pc (main_step lib ratio
              \<lparr>pc = AtTrainModels, v_data = Some (movies, ratings, fd), v_model = m, io = w\<rparr>)
          = Raised e)
   \<and> (stdin w = movie_name # rest \<and> lower movie_name \<noteq> ''quit''
        \<and> fst (get_movie_recommendation ratio movie_name movies fd knn csr 10
                  ((print (Prompt input_prompt) w)\<lparr>stdin := rest\<rparr>)) = Inl e \<longrightarrow>
        pc (main_step lib ratio
              \<lparr>pc = AtInput, v_data = Some (movies, ratings, fd), v_model = Some (knn, csr),
               io = w\<rparr>)
          = Raised e)
   \<and> main_step lib ratio \<lparr>pc = Raised e, v_data = d, v_model = m, io = w\<rparr>
        = \<lparr>pc = Raised e, v_data = d, v_model = m, io = w\<rparr>"
proof -
  have a: "movies_csv w = None \<or> ratings_csv w = None \<longrightarrow>
      load_and_preprocess_data w = (Inr None, print (Line file_error_message) w)
    \<and> main lib ratio w = (Inr (), print (Line file_error_message) w)"
    using load_missing main_missing by blast
  have b: "variance similarities = Inl e \<longrightarrow> e = StatisticsError"
    using variance_error by blast
  have c: "fst (get_movie_recommendation ratio movie_name movies fd knn csr n w)
             \<noteq> Inl StatisticsError"
    using gmr_error by blast
  have d: "fst (create_recommendation_model fd w) = Inl e \<longrightarrow>
        pc (main_step lib ratio
              \<lparr>pc = AtCreateModel, v_data = Some (movies, ratings, fd), v_model = m, io = w\<rparr>)
          = Raised e"
    by (cases "create_recommendation_model fd w") (auto simp: main_step_def)
  have e: "fst (train_models lib fd w) = Inl e \<longrightarrow>
        pc (main_step lib ratio
              \<lparr>pc = AtTrainModels, v_data = Some (movies, ratings, fd), v_model = m, io = w\<rparr>)
          = Raised e"
    by (cases "train_models lib fd w") (auto simp: main_step_def)
  have f: "stdin w = movie_name # rest \<and> lower movie_name \<noteq> ''quit''
        \<and> fst (get_movie_recommendation ratio movie_name movies fd knn csr 10
                  ((print (Prompt input_prompt) w)\<lparr>stdin := rest\<rparr>)) = Inl e \<longrightarrow>
        pc (main_step lib ratio
              \<lparr>pc = AtInput, v_data = Some (movies, ratings, fd), v_model = Some (knn, csr),
               io = w\<rparr>)
          = Raised e"
    by (cases "get_movie_recommendation ratio movie_name movies fd knn csr 10
                  ((print (Prompt input_prompt) w)\<lparr>stdin := rest\<rparr>)")
      (auto simp: main_step_def input_step_def Let_def)
  have g: "main_step lib ratio \<lparr>pc = Raised e, v_data = d, v_model = m, io = w\<rparr>
        = \<lparr>pc = Raised e, v_data = d, v_model = m, io = w\<rparr>"
    by (simp add: main_step_def)
  from a b c d e f g show ?thesis by (intro conjI)
qed

theorem error_handling_witness:
  "movies_csv w_empty = None
   \<and> load_and_preprocess_data w_empty = (Inr None, print (Line file_error_message) w_empty)
   \<and> main lib0 exact_ratio w_empty = (Inr (), print (Line file_error_message) w_empty)
   \<and> variance [1 / 25] = Inl StatisticsError
   \<and> fst (create_recommendation_model fd_norows w_empty) = Inl ValueError
   \<and> pc (main_step lib0 exact_ratio
            \<lparr>pc = AtCreateModel, v_data = Some (movies3, [], fd_norows), v_model = None,
             io = w_empty\<rparr>) = Raised ValueError
   \<and> fst (train_models lib0 fd_one w_empty) = Inl ValueError
   \<and> pc (main_step lib0 exact_ratio
            \<lparr>pc = AtTrainModels, v_data = Some (movies3, [], fd_one), v_model = None,
             io = w_empty\<rparr>) = Raised ValueError
   \<and> stdin w_empty = ''Heat'' # [''quit''] \<and> lower ''Heat'' \<noteq> ''quit''
   \<and> fst (get_movie_recommendation exact_ratio ''Heat'' movies3 fd_tie knn_tie (fd_values fd_tie)
             10 ((print (Prompt input_prompt) w_empty)\<lparr>stdin := [''quit'']\<rparr>)) = Inl ValueError
   \<and> pc (main_step lib0 exact_ratio
            \<lparr>pc = AtInput, v_data = Some (movies3, [], fd_tie),
             v_model = Some (knn_tie, fd_values fd_tie), io = w_empty\<rparr>) = Raised ValueError"
proof -
  have files: "movies_csv w_empty = None"
    by (simp add: w_empty_def)
  have var: "variance [1 / 25] = Inl StatisticsError"
    by (simp add: variance_def)
  have create: "fst (create_recommendation_model fd_norows w_empty) = Inl ValueError"
    by (simp add: create_recommendation_model_def fit_def csr_matrix_def fd_norows_def Let_def)
  have train: "fst (train_models lib0 fd_one w_empty) = Inl ValueError"
    by (simp add: train_models_def randint_def train_test_split_def fd_one_def Let_def)
  have inp: "stdin w_empty = ''Heat'' # [''quit'']" "lower ''Heat'' \<noteq> ''quit''"
    by (simp_all add: w_empty_def lower_def lower_char_def)
  have query: "fst (get_movie_recommendation exact_ratio ''Heat'' movies3 fd_tie knn_tie
             (fd_values fd_tie) 10 ((print (Prompt input_prompt) w_empty)\<lparr>stdin := [''quit'']\<rparr>))
           = Inl ValueError"
    by (simp add: recommend_eval movies3_def fd_tie_def knn_tie_def)
  note h1 = error_handling[where w = w_empty and lib = lib0 and ratio = exact_ratio
      and fd = fd_norows and e = ValueError and movies = movies3 and ratings = "[]"
      and m = None]
  note h2 = error_handling[where w = w_empty and lib = lib0 and ratio = exact_ratio
      and fd = fd_one and e = ValueError and movies = movies3 and ratings = "[]"
      and m = None]
  note h3 = error_handling[where w = w_empty and lib = lib0 and ratio = exact_ratio
      and fd = fd_tie and e = ValueError and movies = movies3 and ratings = "[]"
      and knn = knn_tie and csr = "fd_values fd_tie" and movie_name = "''Heat''"
      and rest = "[''quit'']"]
  from files var create train inp query h1 h2 h3 show ?thesis
    by (intro conjI) blast+
qed

section \<open>The queried movie among its own recommendations\<close>

text \<open>
  Claim C8 at a failing input. The rows of the movies \<open>Up\<close> and \<open>Heat\<close> are equal, so both
  are at distance 0 from the row of \<open>Heat\<close>. The slice drops the first neighbour, which is
  \<open>Up\<close>, and the frame of two rows, indexed 1 and 2, recommends \<open>Heat\<close> to a query for
  \<open>Heat\<close>.
\<close>

theorem queried_movie_recommended:
  "create_recommendation_model fd_tie w_empty
     = (Inr (knn_tie, fd_values fd_tie), log_call NNFit w_empty)
   \<and> get_movie_recommendation exact_ratio ''Heat'' movies3 fd_tie knn_tie (fd_values fd_tie)
         2 w_empty =
       (Inr (Some \<lparr>df_index = [1, 2], df_rows = [(''Big'', 1), (''Heat'', 0)]\<rparr>),
        print (VarianceLine (1 / 2)) (log_call KNeighbors (log_call GetCloseMatches w_empty)))"
  by (simp add: recommend_eval movies3_def fd_tie_def knn_tie_def
      create_recommendation_model_def fit_def csr_matrix_def)

section \<open>Training and the recommendations\<close>


lemma kneighbors_fst: "fst (kneighbors knn q k w) = fst (kneighbors knn q k w')"
  by (simp add: kneighbors_def Let_def)

lemma kneighbors_same:
  "kneighbors knn q k w = (a, b) \<Longrightarrow> kneighbors knn q k w' = (a', b') \<Longrightarrow> a = a'"
  using kneighbors_fst[of knn q k w w'] by simp











text \<open>
  What a run of \<open>train_models\<close> that returns leaves behind: two logged fits, the support
  vector classifier and the classifier of 5 neighbours, three printed lines for each
  with the two scores, and a generator advanced by one draw per row of the matrix.
  Files, input and the arguments are as before.
\<close>

lemma score_and_print_effect:
  assumes "score_and_print header y_test predicted w = (Inr u, w')"
  shows "\<exists>p r. w' = w\<lparr>stdout := stdout w @ [Line header, ScoreLine p r, Line [CHR 0x0A]]\<rparr>"
  using assms
  by (auto simp: score_and_print_def print_def split: sum.splits)

lemma train_models_effect:
  assumes "train_models lib fd w = (Inr (svm_model, knn_model), w')"
  shows "\<exists>p1 r1 p2 r2.
           w' = w\<lparr>rng_pos := rng_pos w + length (fd_values fd),
                   calls := calls w @ [SVCFit, KNCFit 5],
                   stdout := stdout w @
                     [Line ''SVM model -: '', ScoreLine p1 r1, Line [CHR 0x0A],
                      Line ''K-NN model -:'', ScoreLine p2 r2, Line [CHR 0x0A]]\<rparr>"
proof -
  from assms obtain y w1 where r: "randint 0 2 (length (fd_values fd)) w = (Inr y, w1)"
    unfolding train_models_def Let_def by (auto split: prod.splits sum.splits)
  then have w1: "w1 = w\<lparr>rng_pos := rng_pos w + length (fd_values fd)\<rparr>"
    by (auto simp: randint_def split: if_splits)
  from assms r obtain X_train X_test y_train y_test where
    sp: "train_test_split (shuffle lib) (fd_values fd) y = Inr (X_train, X_test, y_train, y_test)"
    unfolding train_models_def Let_def by (auto split: prod.splits sum.splits)
  from assms r sp obtain m where m: "svc_fit lib X_train y_train = Inr m"
    unfolding train_models_def Let_def by (auto split: prod.splits sum.splits)
  from assms r sp m obtain u w3 where
    s1: "score_and_print ''SVM model -: '' y_test (svc_predict lib m X_test)
           (log_call SVCFit w1) = (Inr u, w3)"
    unfolding train_models_def Let_def by (auto split: prod.splits sum.splits)
  from assms r sp m s1 obtain k where k: "knc_fit lib 5 X_train y_train = Inr k"
    unfolding train_models_def Let_def by (auto split: prod.splits sum.splits)
  from assms r sp m s1 k obtain u' where
    s2: "score_and_print ''K-NN model -:'' y_test (knc_predict lib k X_test)
           (log_call (KNCFit 5) w3) = (Inr u', w')"
    unfolding train_models_def Let_def by (auto split: prod.splits sum.splits)
  from score_and_print_effect[OF s1] obtain p1 r1 where
    w3: "w3 = (log_call SVCFit w1)\<lparr>stdout := stdout (log_call SVCFit w1) @
            [Line ''SVM model -: '', ScoreLine p1 r1, Line [CHR 0x0A]]\<rparr>"
    by blast
  from score_and_print_effect[OF s2] obtain p2 r2 where
    w': "w' = (log_call (KNCFit 5) w3)\<lparr>stdout := stdout (log_call (KNCFit 5) w3) @
            [Line ''K-NN model -:'', ScoreLine p2 r2, Line [CHR 0x0A]]\<rparr>"
    by blast
  have "w' = w\<lparr>rng_pos := rng_pos w + length (fd_values fd),
                   calls := calls w @ [SVCFit, KNCFit 5],
                   stdout := stdout w @
                     [Line ''SVM model -: '', ScoreLine p1 r1, Line [CHR 0x0A],
                      Line ''K-NN model -:'', ScoreLine p2 r2, Line [CHR 0x0A]]\<rparr>"
    by (simp add: w' w3 w1 log_call_def)
  then show ?thesis by blast
qed



section \<open>The nearest movies\<close>

lemma hd_filter_find_index:
  "find_index P xs = Some k \<Longrightarrow> xs ! k = hd (filter P xs)"
proof (induction xs arbitrary: k)
  case Nil
  then show ?case by simp
next
  case (Cons x xs)
  then show ?case by (auto split: if_splits)
qed

lemma sorted_hd_min:
  assumes "sorted (map f xs)" and "x \<in> set xs"
  shows "f (hd xs) \<le> f x"
  using assms by (cases xs) auto

lemma hd_sort_key_strict_min:
  fixes f :: "nat \<Rightarrow> real"
  assumes "i < N" and "\<forall>j < N. j \<noteq> i \<longrightarrow> f i < f j"
  shows "hd (sort_key f [0..<N]) = i"
proof -
  let ?o = "sort_key f [0..<N]"
  from assms(1) have ne: "?o \<noteq> []"
    by (metis length_sort length_upt less_nat_zero_code list.size(3) minus_nat.diff_0)
  then have "hd ?o \<in> set ?o" by (rule hd_in_set)
  then have h: "hd ?o < N" by simp
  from assms(1) have "i \<in> set ?o" by simp
  from sorted_hd_min[OF sorted_sort_key this] have "f (hd ?o) \<le> f i" .
  with assms(2) h show ?thesis
    by (metis not_le)
qed

lemma sorted_take_drop:
  assumes "sorted (map f xs)" and "a \<in> set (take k xs)" and "b \<in> set (drop k xs)"
  shows "f a \<le> f b"
proof -
  have "sorted (map f (take k xs) @ map f (drop k xs))"
    using assms(1) by (simp flip: map_append)
  with assms(2,3) show ?thesis
    by (auto simp: sorted_append)
qed

lemma recommend_loop_ok:
  assumes "\<forall>a \<in> set (map fst vals). a < length (fd_movieId fd)"
    and "set (fd_movieId fd) \<subseteq> m_movieId ` set movies"
  shows "recommend_loop movies fd vals =
           Inr (map (\<lambda>v. (m_title (hd (filter (\<lambda>r. m_movieId r = fd_movieId fd ! fst v) movies)),
                           snd v)) vals,
                map snd vals)"
  using assms(1)
proof (induction vals)
  case Nil
  then show ?case by simp
next
  case (Cons v vals)
  from Cons.prems have lt: "fst v < length (fd_movieId fd)" by simp
  then have "fd_movieId fd ! fst v \<in> m_movieId ` set movies"
    using assms(2) nth_mem by blast
  then have "find_index (\<lambda>r. m_movieId r = fd_movieId fd ! fst v) movies \<noteq> None"
    by (auto simp: find_index_None)
  then obtain idx where
    idx: "find_index (\<lambda>r. m_movieId r = fd_movieId fd ! fst v) movies = Some idx"
    by auto
  from Cons.IH Cons.prems lt idx hd_filter_find_index[OF idx] show ?case
    by (simp add: Let_def)
qed

lemma length_upto_one: "length [1..n] = nat n"
  by (simp add: length_upto)

lemma zip_map_self: "zip xs (map f xs) = map (\<lambda>x. (x, f x)) xs"
  by (induction xs) simp_all

lemma create_model_fitted:
  assumes "create_recommendation_model fd w0 = (Inr (knn, csr), w1)"
  shows "knn = \<lparr>nn_n_neighbors = 20, nn_metric = cosine_distances, nn_fit_X = fd_values fd\<rparr>
         \<and> csr = fd_values fd"
  using assms
  by (auto simp: create_recommendation_model_def fit_def csr_matrix_def Let_def
      split: list.splits if_splits)

text \<open>
  Claim C1 as stated fails: with fewer than \<open>n_movies_to_recommend + 1\<close> movies in the
  dataset \<open>kneighbors\<close> raises, and no movie is returned. Here the dataset has three
  movies and the default of ten recommendations is asked for.
\<close>

theorem too_few_movies_counterexample:
  "create_recommendation_model fd_apart w_empty
     = (Inr (knn_apart, fd_values fd_apart), log_call NNFit w_empty)
   \<and> get_close_matches exact_ratio ''Heat'' (map m_title movies3) 1 default_cutoff = Inr [''Heat'']
   \<and> find_index (\<lambda>m. m = 2) (fd_movieId fd_apart) = Some 1
   \<and> get_movie_recommendation exact_ratio ''Heat'' movies3 fd_apart knn_apart (fd_values fd_apart)
         10 w_empty
       = (Inl ValueError, log_call KNeighbors (log_call GetCloseMatches w_empty))"
  by (simp add: recommend_eval movies3_def fd_apart_def knn_apart_def
      create_recommendation_model_def fit_def csr_matrix_def)

text \<open>
  Claim C1, amended. Let the model be the one fitted on the dataset, a rectangular frame;
  let the queried name match a title whose \<open>movieId\<close> is at position \<open>i\<close> of the
  dataset, let the dataset hold at least \<open>n + 1\<close> movies with \<open>n\<close> at least 1, all of
  them listed in \<open>movies.csv\<close>, and let every other movie be strictly farther from the
  matched movie than the matched movie is from itself. Then the frame holds \<open>n\<close>
  different movies other than the matched one, with their titles and cosine distances,
  and no movie left out is nearer to the matched movie than a movie of the frame.
\<close>

theorem recommendations_are_nearest:
  assumes model: "create_recommendation_model fd w0 = (Inr (knn, csr), w1)"
    and match: "get_close_matches ratio movie_name (map m_title movies) 1 default_cutoff
                  = Inr (selected # rest)"
    and first: "filter (\<lambda>r. m_title r = selected) movies = r # rs"
    and present: "find_index (\<lambda>m. m = m_movieId r) (fd_movieId fd) = Some i"
    and rows: "length (fd_movieId fd) = length (fd_values fd)"
    and cols: "\<forall>row \<in> set (fd_values fd). length row = length (fd_userId fd)"
    and listed: "set (fd_movieId fd) \<subseteq> m_movieId ` set movies"
    and enough: "1 \<le> n" "n + 1 \<le> int (length (fd_values fd))"
    and strict: "\<forall>j < length (fd_values fd). j \<noteq> i \<longrightarrow>
                   cosine_distances (fd_values fd ! i) (fd_values fd ! i)
                     < cosine_distances (fd_values fd ! i) (fd_values fd ! j)"
  shows "\<exists>df w' idxs.
           get_movie_recommendation ratio movie_name movies fd knn csr n w = (Inr (Some df), w')
         \<and> length idxs = nat n \<and> distinct idxs \<and> i \<notin> set idxs
         \<and> set idxs \<subseteq> {..<length (fd_values fd)}
         \<and> (\<forall>a \<in> set idxs. \<forall>j < length (fd_values fd). j \<noteq> i \<and> j \<notin> set idxs \<longrightarrow>
                cosine_distances (fd_values fd ! i) (fd_values fd ! a)
                  \<le> cosine_distances (fd_values fd ! i) (fd_values fd ! j))
         \<and> df_index df = [1..n]
         \<and> df_rows df =
               map (\<lambda>a. (m_title (hd (filter (\<lambda>r. m_movieId r = fd_movieId fd ! a) movies)),
                          cosine_distances (fd_values fd ! i) (fd_values fd ! a))) idxs"
proof -
  define X where "X = fd_values fd"
  define N where "N = length X"
  define q where "q = X ! i"
  define ds where "ds = map (cosine_distances q) X"
  define order where "order = sort_key (\<lambda>j. ds ! j) [0..<N]"
  define K where "K = take (nat (n + 1)) order"
  define idxs where "idxs = rev (tl K)"
  define w1' where "w1' = log_call GetCloseMatches w"
  from create_model_fitted[OF model] have knn:
    "knn = \<lparr>nn_n_neighbors = 20, nn_metric = cosine_distances, nn_fit_X = X\<rparr>" and csr: "csr = X"
    by (simp_all add: X_def)
  from find_index_Some[OF present] rows have iN: "i < N"
    by (simp add: N_def X_def)
  have ds_nth: "ds ! j = cosine_distances q (X ! j)" if "j < N" for j
    using that by (simp add: ds_def N_def)
  \<comment> \<open>the call of \<open>kneighbors\<close>\<close>
  from iN have Xne: "X \<noteq> []" by (auto simp: N_def)
  then have "hd X \<in> set X" by simp
  moreover from iN have "q \<in> set X" by (simp add: q_def N_def)
  ultimately have qlen: "length q = length (hd X)"
    using cols by (simp add: X_def)
  from enough have kpos: "0 < n + 1" and kle: "n + 1 \<le> int N"
    by (simp_all add: N_def X_def)
  have kn: "kneighbors knn q (n + 1) w1' = (Inr (map (\<lambda>j. ds ! j) K, K), log_call KNeighbors w1')"
    using kpos kle qlen
    by (simp add: kneighbors_def Let_def knn K_def order_def ds_def N_def)
  \<comment> \<open>the order of the neighbours\<close>
  have len_order: "length order = N" by (simp add: order_def)
  have set_order: "set order = {..<N}" by (auto simp: order_def)
  have dist_order: "distinct order" by (simp add: order_def)
  have sorted_order: "sorted (map (\<lambda>j. ds ! j) order)"
    unfolding order_def by (rule sorted_sort_key)
  from kle enough(1) have lenK: "length K = nat (n + 1)"
    by (simp add: K_def len_order)
  with enough(1) have Kne: "K \<noteq> []" by auto
  have "\<forall>j < N. j \<noteq> i \<longrightarrow> ds ! i < ds ! j"
    using strict iN by (simp add: ds_nth q_def X_def N_def)
  from hd_sort_key_strict_min[OF iN this] have "hd order = i"
    by (simp add: order_def)
  with Kne have hdK: "hd K = i"
    by (simp add: K_def hd_take)
  with Kne have K: "K = i # tl K"
    by (cases K) auto
  have distK: "distinct K"
    using dist_order by (simp add: K_def)
  have setK: "set K \<subseteq> {..<N}"
    using set_order set_take_subset[of "nat (n + 1)" order] by (auto simp: K_def)
  \<comment> \<open>the recommended positions\<close>
  have len_idxs: "length idxs = nat n"
    using lenK enough(1) by (simp add: idxs_def nat_add_distrib)
  have dist_idxs: "distinct idxs"
    using distK by (simp add: idxs_def distinct_tl)
  have i_out: "i \<notin> set idxs"
    using distK K by (metis distinct.simps(2) idxs_def set_rev)
  have set_idxs: "set idxs \<subseteq> {..<N}"
    using setK K by (metis idxs_def list.set_intros(2) set_rev subset_code(1))
  have setK_idxs: "set K = insert i (set idxs)"
    using K by (metis idxs_def list.simps(15) set_rev)
  have nearest: "ds ! a \<le> ds ! j" if a: "a \<in> set idxs" and j: "j < N" "j \<noteq> i" "j \<notin> set idxs"
    for a j
  proof -
    from a have "a \<in> set (take (nat (n + 1)) order)"
      using setK_idxs by (simp add: K_def)
    moreover have "j \<in> set (drop (nat (n + 1)) order)"
    proof -
      from j(1) have "j \<in> set (take (nat (n + 1)) order @ drop (nat (n + 1)) order)"
        using set_order by simp
      moreover from j(2,3) have "j \<notin> set (take (nat (n + 1)) order)"
        using setK_idxs by (simp add: K_def)
      ultimately show ?thesis by (simp only: set_append Un_iff) blast
    qed
    ultimately show ?thesis
      using sorted_take_drop[OF sorted_order] by blast
  qed
  \<comment> \<open>the pairs and the loop\<close>
  define pairs where "pairs = map (\<lambda>j. (j, ds ! j)) K"
  have sq: "squeeze_zip K (map (\<lambda>j. ds ! j) K) = Inr pairs"
    using lenK enough(1) by (simp add: squeeze_zip_def zip_map_self pairs_def)
  have "sorted (map snd pairs)"
    using sorted_order sorted_wrt_take[of "(\<le>)" "map (\<lambda>j. ds ! j) order" "nat (n + 1)"]
    by (simp add: pairs_def K_def comp_def take_map)
  then have "sort_key snd pairs = pairs"
    by (rule sort_key_id_if_sorted)
  then have rmi: "rec_movie_indices pairs = map (\<lambda>j. (j, ds ! j)) idxs"
    by (simp add: rec_movie_indices_def pairs_def idxs_def rev_map flip: map_tl)
  have "\<forall>a \<in> set (map fst (map (\<lambda>j. (j, ds ! j)) idxs)). a < length (fd_movieId fd)"
    using set_idxs rows by (auto simp: N_def X_def)
  from recommend_loop_ok[OF this listed]
  have loop: "recommend_loop movies fd (rec_movie_indices pairs) =
      Inr (map (\<lambda>a. (m_title (hd (filter (\<lambda>r. m_movieId r = fd_movieId fd ! a) movies)), ds ! a))
             idxs,
           map (\<lambda>a. ds ! a) idxs)"
    by (simp add: rmi comp_def)
  define rws where
    "rws = map (\<lambda>a. (m_title (hd (filter (\<lambda>r. m_movieId r = fd_movieId fd ! a) movies)), ds ! a))
             idxs"
  have frame: "DataFrame rws n = Inr \<lparr>df_index = [1..n], df_rows = rws\<rparr>"
    using len_idxs by (simp add: DataFrame_def rws_def length_upto_one)
  have iX: "\<not> length csr \<le> i"
    using iN by (simp add: csr N_def)
  have run: "\<exists>w'. get_movie_recommendation ratio movie_name movies fd knn csr n w
               = (Inr (Some \<lparr>df_index = [1..n], df_rows = rws\<rparr>), w')"
  proof (cases "variance (map (\<lambda>a. ds ! a) idxs)")
    case (Inl e)
    with variance_error[OF Inl] match first present iX kn sq loop frame show ?thesis
      by (simp add: get_movie_recommendation_def Let_def csr q_def[symmetric]
          w1'_def[symmetric] rws_def[symmetric])
  next
    case (Inr v)
    with match first present iX kn sq loop frame show ?thesis
      by (simp add: get_movie_recommendation_def Let_def csr q_def[symmetric]
          w1'_def[symmetric] rws_def[symmetric])
  qed
  have rws_eq: "rws =
      map (\<lambda>a. (m_title (hd (filter (\<lambda>r. m_movieId r = fd_movieId fd ! a) movies)),
                 cosine_distances (fd_values fd ! i) (fd_values fd ! a))) idxs"
    using set_idxs by (auto simp: rws_def ds_nth q_def X_def)
  have nearest': "\<forall>a \<in> set idxs. \<forall>j < length (fd_values fd). j \<noteq> i \<and> j \<notin> set idxs \<longrightarrow>
                cosine_distances (fd_values fd ! i) (fd_values fd ! a)
                  \<le> cosine_distances (fd_values fd ! i) (fd_values fd ! j)"
  proof (intro ballI allI impI)
    fix a j
    assume a: "a \<in> set idxs" and j: "j < length (fd_values fd)" "j \<noteq> i \<and> j \<notin> set idxs"
    then have "ds ! a \<le> ds ! j"
      using nearest[of a j] by (simp add: N_def X_def)
    moreover from a set_idxs have "a < N" by auto
    ultimately show "cosine_distances (fd_values fd ! i) (fd_values fd ! a)
                  \<le> cosine_distances (fd_values fd ! i) (fd_values fd ! j)"
      using j(1) by (simp add: ds_nth q_def X_def N_def)
  qed
  from run obtain w' where
    "get_movie_recommendation ratio movie_name movies fd knn csr n w
               = (Inr (Some \<lparr>df_index = [1..n], df_rows = rws\<rparr>), w')"
    by blast
  with len_idxs dist_idxs i_out set_idxs nearest' rws_eq show ?thesis
    apply (intro exI[of _ "\<lparr>df_index = [1..n], df_rows = rws\<rparr>"] exI[of _ w'] exI[of _ idxs])
    apply (simp add: N_def X_def)
    done
qed

theorem recommendations_are_nearest_witness:
  "create_recommendation_model fd_apart w_empty
     = (Inr (knn_apart, fd_values fd_apart), log_call NNFit w_empty)
   \<and> get_close_matches exact_ratio ''Heat'' (map m_title movies3) 1 default_cutoff = Inr [''Heat'']
   \<and> find_index (\<lambda>m. m = 2) (fd_movieId fd_apart) = Some 1
   \<and> (\<exists>df w' idxs.
         get_movie_recommendation exact_ratio ''Heat'' movies3 fd_apart knn_apart
             (fd_values fd_apart) 2 w_empty = (Inr (Some df), w')
       \<and> length idxs = nat 2 \<and> distinct idxs \<and> 1 \<notin> set idxs
       \<and> set idxs \<subseteq> {..<length (fd_values fd_apart)}
       \<and> (\<forall>a \<in> set idxs. \<forall>j < length (fd_values fd_apart). j \<noteq> 1 \<and> j \<notin> set idxs \<longrightarrow>
              cosine_distances (fd_values fd_apart ! 1) (fd_values fd_apart ! a)
                \<le> cosine_distances (fd_values fd_apart ! 1) (fd_values fd_apart ! j))
       \<and> df_index df = [1..2]
       \<and> df_rows df =
             map (\<lambda>a. (m_title (hd (filter (\<lambda>r. m_movieId r = fd_movieId fd_apart ! a) movies3)),
                        cosine_distances (fd_values fd_apart ! 1) (fd_values fd_apart ! a))) idxs)"
proof -
  have model: "create_recommendation_model fd_apart w_empty
     = (Inr (knn_apart, fd_values fd_apart), log_call NNFit w_empty)"
    by (simp add: fd_apart_def knn_apart_def create_recommendation_model_def fit_def
        csr_matrix_def Let_def)
  have match: "get_close_matches exact_ratio ''Heat'' (map m_title movies3) 1 default_cutoff
                 = Inr (''Heat'' # [])"
    by (simp add: get_close_matches_def movies3_def exact_ratio_def default_cutoff_def)
  have first: "filter (\<lambda>r. m_title r = ''Heat'') movies3
                 = \<lparr>m_movieId = 2, m_title = ''Heat''\<rparr> # []"
    by (simp add: movies3_def)
  have present: "find_index (\<lambda>m. m = m_movieId \<lparr>m_movieId = 2, m_title = ''Heat''\<rparr>)
                   (fd_movieId fd_apart) = Some 1"
    by (simp add: fd_apart_def)
  have rows: "length (fd_movieId fd_apart) = length (fd_values fd_apart)"
    by (simp add: fd_apart_def)
  have cols: "\<forall>row \<in> set (fd_values fd_apart). length row = length (fd_userId fd_apart)"
    by (simp add: fd_apart_def)
  have listed: "set (fd_movieId fd_apart) \<subseteq> m_movieId ` set movies3"
    by (simp add: fd_apart_def movies3_def)
  have enough: "(1::int) \<le> 2" "(2::int) + 1 \<le> int (length (fd_values fd_apart))"
    by (simp_all add: fd_apart_def)
  have strict: "\<forall>j < length (fd_values fd_apart). j \<noteq> 1 \<longrightarrow>
                   cosine_distances (fd_values fd_apart ! 1) (fd_values fd_apart ! 1)
                     < cosine_distances (fd_values fd_apart ! 1) (fd_values fd_apart ! j)"
    by (simp add: fd_apart_def All_less_Suc cosine_distances_def normalize_def dot_def sqrt_25)
  from recommendations_are_nearest[OF model match first present rows cols listed enough strict,
      of w_empty] model match present
  show ?thesis by simp
qed

end
